theory Spec2Isabelle
  imports Main "HOL-Library.AList"
begin

section \<open>The native quantizer of mmrazor\<close>

text \<open>
  A shallow embedding of \<^verbatim>\<open>mmrazor/models/quantizers/native_quantizer.py\<close>: the
  constructor of \<^verbatim>\<open>NativeQuantizer\<close>, its properties, \<^verbatim>\<open>prepare\<close>,
  \<^verbatim>\<open>del_redundant_fakequant\<close>, \<^verbatim>\<open>post_process_weight_fakequant\<close> and
  \<^verbatim>\<open>prepare_for_mmdeploy\<close>. What the file imports (torch, the tracer's graph
  utilities, the qconfig handler) is a parameter of the model or, for the eight
  \<^verbatim>\<open>del_fakequant_*\<close> helpers, a definition written from the specification.
\<close>

subsection \<open>Errors\<close>

text \<open>
  The exceptions the file can raise: a failed \<^verbatim>\<open>assert\<close>, a missing dictionary
  key, and the explicit \<^verbatim>\<open>raise NotImplementedError\<close>.
\<close>

datatype error = AssertionError | KeyError | NotImplementedError

subsection \<open>Module classes and the two module-level tables\<close>

text \<open>
  The fifteen QAT classes the file names (eleven of \<^verbatim>\<open>torch.nn.intrinsic.qat\<close>,
  four of \<^verbatim>\<open>torch.nn.qat\<close>) and every other class by its name.
\<close>

datatype cls =
    ConvBn1d | ConvBn2d | ConvBn3d
  | ConvBnReLU1d | ConvBnReLU2d | ConvBnReLU3d
  | ConvReLU1d | ConvReLU2d | ConvReLU3d
  | LinearBn1d | LinearReLU
  | Conv1d | Conv2d | Conv3d | Linear
  | OtherClass string

text \<open>
  Lines 39-60. Both tables are filled only when torch is at least 1.13.0; the
  argument is the outcome of that version test.
\<close>

definition SUPPORT_QAT_MODULES :: "bool \<Rightarrow> cls list" where
  "SUPPORT_QAT_MODULES torch_ge_1_13 =
     (if torch_ge_1_13
      then [ConvBn1d, ConvBn2d, ConvBn3d, ConvBnReLU1d, ConvBnReLU2d, ConvBnReLU3d,
            ConvReLU1d, ConvReLU2d, ConvReLU3d, LinearBn1d, LinearReLU,
            Conv1d, Conv2d, Conv3d, Linear]
      else [])"

definition MERGE_BN_MAPPINGS :: "bool \<Rightarrow> (cls \<times> cls) list" where
  "MERGE_BN_MAPPINGS torch_ge_1_13 =
     (if torch_ge_1_13
      then [(ConvBn1d, Conv1d), (ConvBn2d, Conv2d), (ConvBn3d, Conv3d),
            (ConvBnReLU1d, ConvReLU1d), (ConvBnReLU2d, ConvReLU2d),
            (ConvBnReLU3d, ConvReLU3d), (LinearBn1d, Linear)]
      else [])"

subsection \<open>The properties (lines 136-149 and 317-355)\<close>

text \<open>
  Each property returns a literal and never reads \<^verbatim>\<open>self\<close> (the constructor
  calls two of them before the object is complete), so each is a constant. Python
  tuples and lists are HOL lists.
\<close>

definition backend :: string where
  "backend = ''native''"

definition support_w_modes :: "string list" where
  "support_w_modes = [''per_tensor'', ''per_channel'']"

definition support_a_modes :: "string list" where
  "support_a_modes = [''per_tensor'']"

definition module_prev_wo_fakequant :: "string list" where
  "module_prev_wo_fakequant = []"

definition module_next_wo_fakequant :: "string list" where
  "module_next_wo_fakequant = []"

definition function_prev_wo_fakequant :: "string list" where
  "function_prev_wo_fakequant = []"

definition function_next_wo_fakequant :: "string list" where
  "function_next_wo_fakequant = []"

definition method_prev_wo_fakequant :: "string list" where
  "method_prev_wo_fakequant = []"

definition method_next_wo_fakequant :: "string list" where
  "method_next_wo_fakequant = []"

definition op_prev_wo_fakequant :: "string list" where
  "op_prev_wo_fakequant = []"

definition op_next_wo_fakequant :: "string list" where
  "op_next_wo_fakequant = []"

subsection \<open>The quantizer object\<close>

text \<open>
  What the constructor reads of the resolved configuration: the two schemes'
  \<^verbatim>\<open>is_per_channel\<close> flags and the result of \<^verbatim>\<open>convert()\<close>, an opaque
  torch \<^verbatim>\<open>QConfig\<close> of type \<open>'c\<close>.
\<close>

record qscheme =
  is_per_channel :: bool

record 'c qconfig_hander =
  w_qscheme :: qscheme
  a_qscheme :: qscheme
  convert :: 'c

text \<open>
  Modelled from the spec: torch's \<^verbatim>\<open>QConfigMapping\<close>, whose code is not in the repository, as
  section 3 describes the global qconfig mapping: a global default and a table from
  module type to a configuration or \<^verbatim>\<open>None\<close>. The table is an ordered dictionary:
  \<open>AList.update\<close> overwrites a key in place and appends a new one.
\<close>

record 'c QConfigMapping =
  global_qconfig :: "'c option"
  object_type_qconfigs :: "(cls \<times> 'c option) list"

definition QConfigMapping_new :: "'c QConfigMapping" where
  "QConfigMapping_new = \<lparr>global_qconfig = None, object_type_qconfigs = []\<rparr>"

definition set_global :: "'c \<Rightarrow> 'c QConfigMapping \<Rightarrow> 'c QConfigMapping" where
  "set_global q m = m\<lparr>global_qconfig := Some q\<rparr>"

definition set_object_type :: "cls \<Rightarrow> 'c option \<Rightarrow> 'c QConfigMapping \<Rightarrow> 'c QConfigMapping" where
  "set_object_type c q m = m\<lparr>object_type_qconfigs := AList.update c q (object_type_qconfigs m)\<rparr>"

record 'sc tracer =
  node_name_to_scope :: 'sc

record ('c, 'b, 'sc, 'x) quantizer =
  tracer :: "'sc tracer"
  qconfig :: "'c qconfig_hander"
  qconfig_mapping :: "'c QConfigMapping"
  no_observer_modules :: "cls list option"
  backend_config :: 'b
  example_inputs :: 'x
  extra_redundant_fakequants :: "(string \<times> string list) list"

text \<open>
  The collaborators of the constructor, none of them defined in this file: the base class's
  constructor, which builds the tracer from its configuration; the qconfig handler;
  \<^verbatim>\<open>str2class\<close>; the table \<^verbatim>\<open>BackendConfigs\<close>; and \<^verbatim>\<open>torch.randn\<close>, whose
  draw is a function of the shape. They are taken as total functions: the source
  handles no failure of theirs. The subscript \<^verbatim>\<open>BackendConfigs[self.backend]\<close>
  raises \<^verbatim>\<open>KeyError\<close> on a missing key.
\<close>

record ('g, 'c, 'b, 'sc, 'x) collaborators =
  build_tracer :: "(string \<times> string) list \<Rightarrow> 'sc tracer"
  QConfigHander :: "'g \<Rightarrow> 'c qconfig_hander"
  str2class :: "string list \<Rightarrow> cls list"
  BackendConfigs :: "(string \<times> 'b) list"
  randn :: "nat list \<Rightarrow> 'x"

text \<open>The default arguments of the constructor (lines 100-109).\<close>

definition default_tracer :: "(string \<times> string) list" where
  "default_tracer = [(''type'', ''CustomTracer'')]"

definition default_extra_redundant_fakequants :: "(string \<times> string list) list" where
  "default_extra_redundant_fakequants =
     [(''extra_module_prev_wo_fakequant'', []),
      (''extra_module_next_wo_fakequant'', []),
      (''extra_function_prev_wo_fakequant'', []),
      (''extra_function_next_wo_fakequant'', []),
      (''extra_method_prev_wo_fakequant'', []),
      (''extra_method_next_wo_fakequant'', []),
      (''extra_op_prev_wo_fakequant'', []),
      (''extra_op_next_wo_fakequant'', [])]"

text \<open>
  Lines 110-134. The two asserts come before the mapping is created; the loop over
  the classes is a fold; \<^verbatim>\<open>if no_observer_modules:\<close> is false for \<^verbatim>\<open>None\<close> and
  for the empty list, and then the argument is stored as it came.
\<close>

definition init ::
  "('g, 'c, 'b, 'sc, 'x) collaborators \<Rightarrow> 'g \<Rightarrow> string list option \<Rightarrow> (string \<times> string) list \<Rightarrow>
   (string \<times> string list) list \<Rightarrow> error + ('c, 'b, 'sc, 'x) quantizer" where
  "init env global_qconfig_arg no_observer_modules_arg tracer_arg extra =
     (let tr = build_tracer env tracer_arg;
          qc = QConfigHander env global_qconfig_arg;
          w_mode = (if is_per_channel (w_qscheme qc) then ''per_channel'' else ''per_tensor'');
          a_mode = (if is_per_channel (a_qscheme qc) then ''per_channel'' else ''per_tensor'')
      in if w_mode \<notin> set support_w_modes then Inl AssertionError
         else if a_mode \<notin> set support_a_modes then Inl AssertionError
         else
           let mapping0 = set_global (convert qc) QConfigMapping_new;
               (nom, mapping) =
                 (case no_observer_modules_arg of
                    None \<Rightarrow> (None, mapping0)
                  | Some names \<Rightarrow>
                      if names = [] then (Some [], mapping0)
                      else (let classes = str2class env names
                            in (Some classes, fold (\<lambda>m. set_object_type m None) classes mapping0)))
           in case map_of (BackendConfigs env) backend of
                None \<Rightarrow> Inl KeyError
              | Some bc \<Rightarrow>
                  Inr \<lparr>tracer = tr, qconfig = qc, qconfig_mapping = mapping,
                       no_observer_modules = nom, backend_config = bc,
                       example_inputs = randn env [1, 3, 224, 224],
                       extra_redundant_fakequants = extra\<rparr>)"

text \<open>
  Lines 242-245: the body is the single \<^verbatim>\<open>raise\<close>. The model is returned beside
  the outcome, as the call leaves it.
\<close>

definition prepare_for_mmdeploy ::
  "('c, 'b, 'sc, 'x) quantizer \<Rightarrow> 'm \<Rightarrow> 'd \<Rightarrow> string option \<Rightarrow> 'm \<times> (error + 'r)" where
  "prepare_for_mmdeploy self model dummy_input checkpoint = (model, Inl NotImplementedError)"

subsection \<open>The prepared graph\<close>

text \<open>
  Modelled from the spec: the traced graph of torch.fx, whose code is not in the repository, as
  section 3 describes it: an ordered graph of nodes, each a module call, a function
  call, a method call or a primitive operator call, with edges for data
  dependencies; after observer insertion also fake-quant nodes, each with the one
  value it observes. A node is named; its inputs are the names of other nodes. A
  call has a callee; an exempt entry is the callee's identifier.
\<close>

type_synonym name = string

datatype call_kind = call_module | call_function | call_method | call_op

datatype node = Call call_kind string "name list" | FakeQuant name

type_synonym graph = "(name \<times> node) list"

datatype side = Before | After

fun matches :: "call_kind \<Rightarrow> string list \<Rightarrow> node \<Rightarrow> bool" where
  "matches k es (Call k' c xs) = (k' = k \<and> c \<in> set es)"
| "matches k es (FakeQuant p) = False"

fun call_args :: "node \<Rightarrow> name list" where
  "call_args (Call k c xs) = xs"
| "call_args (FakeQuant p) = []"

definition is_fakequant :: "graph \<Rightarrow> name \<Rightarrow> bool" where
  "is_fakequant g n = (case map_of g n of Some (FakeQuant p) \<Rightarrow> True | _ \<Rightarrow> False)"

definition is_match :: "graph \<Rightarrow> call_kind \<Rightarrow> string list \<Rightarrow> name \<Rightarrow> bool" where
  "is_match g k es n = (case map_of g n of Some nd \<Rightarrow> matches k es nd | None \<Rightarrow> False)"

text \<open>
  Modelled from the spec: erasing a fake-quant node. The node goes, and every use of
  it becomes a use of the value it observed, so that the graph stays runnable
  (section 4.1). A name that is no fake-quant node is left alone.
\<close>

fun redirect :: "name \<Rightarrow> name \<Rightarrow> node \<Rightarrow> node" where
  "redirect f p (Call k c xs) = Call k c (map (\<lambda>a. if a = f then p else a) xs)"
| "redirect f p (FakeQuant i) = FakeQuant (if i = f then p else i)"

definition erase_fakequant :: "name \<Rightarrow> graph \<Rightarrow> graph" where
  "erase_fakequant f g =
     (case map_of g f of
        Some (FakeQuant p) \<Rightarrow>
          map (\<lambda>(n, nd). (n, redirect f p nd)) (filter (\<lambda>(n, nd). n \<noteq> f) g)
      | _ \<Rightarrow> g)"

text \<open>
  Modelled from the spec: the deletion passes of
  \<^verbatim>\<open>mmrazor.models.task_modules.tracer.fx\<close>, whose code is missing from the sources. Section 4.2:
  a pass "takes a set of exempt types/callables and removes a fake-quant node found
  immediately adjacent (on the specified side) to a call matching one of the exempt
  entries". Before a call: the fake-quant node is an input of the call. After a
  call: the call is the input of the fake-quant node.
\<close>

definition fakequants_before :: "call_kind \<Rightarrow> string list \<Rightarrow> graph \<Rightarrow> name list" where
  "fakequants_before k es g =
     concat (map (\<lambda>(n, nd). if matches k es nd then filter (is_fakequant g) (call_args nd) else []) g)"

definition fakequants_after :: "call_kind \<Rightarrow> string list \<Rightarrow> graph \<Rightarrow> name list" where
  "fakequants_after k es g =
     concat (map (\<lambda>(n, nd). case nd of
                               FakeQuant p \<Rightarrow> if is_match g k es p then [n] else []
                             | Call k' c xs \<Rightarrow> []) g)"

fun fakequants_adjacent :: "side \<Rightarrow> call_kind \<Rightarrow> string list \<Rightarrow> graph \<Rightarrow> name list" where
  "fakequants_adjacent Before k es g = fakequants_before k es g"
| "fakequants_adjacent After k es g = fakequants_after k es g"

definition prune :: "side \<Rightarrow> call_kind \<Rightarrow> string list \<Rightarrow> graph \<Rightarrow> graph" where
  "prune sd k es g = fold erase_fakequant (fakequants_adjacent sd k es g) g"

text \<open>
  Modelled from the spec: the argument \<^verbatim>\<open>inplace\<close> of the helpers (section 4.2:
  "in-place"). The graph module is a mutable object, so the helpers work on a store
  of graphs and a reference into it. In place, the cell of the reference is
  overwritten and the same reference comes back; otherwise the result is a new cell
  and the argument's cell is untouched.
\<close>

type_synonym heap = "graph list"

type_synonym graph_ref = nat

definition update_graph :: "(graph \<Rightarrow> graph) \<Rightarrow> heap \<times> graph_ref \<Rightarrow> bool \<Rightarrow> heap \<times> graph_ref" where
  "update_graph f prepared inplace =
     (case prepared of (h, r) \<Rightarrow>
        if inplace then (h[r := f (h ! r)], r) else (h @ [f (h ! r)], length h))"

text \<open>Modelled from the spec: \<^verbatim>\<open>del_fakequant_before_module\<close>, the pass for a fake-quant node before a module call.\<close>

definition del_fakequant_before_module :: "heap \<times> graph_ref \<Rightarrow> string list \<Rightarrow> bool \<Rightarrow> heap \<times> graph_ref" where
  "del_fakequant_before_module prepared targets inplace =
     update_graph (prune Before call_module targets) prepared inplace"

text \<open>Modelled from the spec: \<^verbatim>\<open>del_fakequant_after_module\<close>, the pass for a fake-quant node after a module call.\<close>

definition del_fakequant_after_module :: "heap \<times> graph_ref \<Rightarrow> string list \<Rightarrow> bool \<Rightarrow> heap \<times> graph_ref" where
  "del_fakequant_after_module prepared targets inplace =
     update_graph (prune After call_module targets) prepared inplace"

text \<open>Modelled from the spec: \<^verbatim>\<open>del_fakequant_before_function\<close>, the pass for a fake-quant node before a function call.\<close>

definition del_fakequant_before_function :: "heap \<times> graph_ref \<Rightarrow> string list \<Rightarrow> bool \<Rightarrow> heap \<times> graph_ref" where
  "del_fakequant_before_function prepared targets inplace =
     update_graph (prune Before call_function targets) prepared inplace"

text \<open>Modelled from the spec: \<^verbatim>\<open>del_fakequant_after_function\<close>, the pass for a fake-quant node after a function call.\<close>

definition del_fakequant_after_function :: "heap \<times> graph_ref \<Rightarrow> string list \<Rightarrow> bool \<Rightarrow> heap \<times> graph_ref" where
  "del_fakequant_after_function prepared targets inplace =
     update_graph (prune After call_function targets) prepared inplace"

text \<open>Modelled from the spec: \<^verbatim>\<open>del_fakequant_before_method\<close>, the pass for a fake-quant node before a method call.\<close>

definition del_fakequant_before_method :: "heap \<times> graph_ref \<Rightarrow> string list \<Rightarrow> bool \<Rightarrow> heap \<times> graph_ref" where
  "del_fakequant_before_method prepared targets inplace =
     update_graph (prune Before call_method targets) prepared inplace"

text \<open>Modelled from the spec: \<^verbatim>\<open>del_fakequant_after_method\<close>, the pass for a fake-quant node after a method call.\<close>

definition del_fakequant_after_method :: "heap \<times> graph_ref \<Rightarrow> string list \<Rightarrow> bool \<Rightarrow> heap \<times> graph_ref" where
  "del_fakequant_after_method prepared targets inplace =
     update_graph (prune After call_method targets) prepared inplace"

text \<open>Modelled from the spec: \<^verbatim>\<open>del_fakequant_before_op\<close>, the pass for a fake-quant node before a primitive operator call.\<close>

definition del_fakequant_before_op :: "heap \<times> graph_ref \<Rightarrow> string list \<Rightarrow> bool \<Rightarrow> heap \<times> graph_ref" where
  "del_fakequant_before_op prepared targets inplace =
     update_graph (prune Before call_op targets) prepared inplace"

text \<open>Modelled from the spec: \<^verbatim>\<open>del_fakequant_after_op\<close>, the pass for a fake-quant node after a primitive operator call.\<close>

definition del_fakequant_after_op :: "heap \<times> graph_ref \<Rightarrow> string list \<Rightarrow> bool \<Rightarrow> heap \<times> graph_ref" where
  "del_fakequant_after_op prepared targets inplace =
     update_graph (prune After call_op targets) prepared inplace"

subsection \<open>del_redundant_fakequant (lines 247-315)\<close>

text \<open>\<^verbatim>\<open>dict.get(key, tuple())\<close>: the value of the key, or the empty tuple.\<close>

definition dict_get :: "(string \<times> string list) list \<Rightarrow> string \<Rightarrow> string list \<Rightarrow> string list" where
  "dict_get d k dflt = (case map_of d k of Some v \<Rightarrow> v | None \<Rightarrow> dflt)"

text \<open>
  The eight calls in the order of the source, each with the helper and the two lists
  the source gives it. The third and fourth calls hand the function lists to the
  method helpers, the fifth and sixth the method lists to the function helpers.
\<close>

definition del_redundant_fakequant ::
  "('c, 'b, 'sc, 'x) quantizer \<Rightarrow> heap \<times> graph_ref \<Rightarrow> heap \<times> graph_ref" where
  "del_redundant_fakequant self prepared0 =
     (let extra_module_prev_wo_fakequant =
            dict_get (extra_redundant_fakequants self) ''extra_module_prev_wo_fakequant'' [];
          prepared1 = del_fakequant_before_module prepared0
            (module_prev_wo_fakequant @ extra_module_prev_wo_fakequant) True;
          extra_module_next_wo_fakequant =
            dict_get (extra_redundant_fakequants self) ''extra_module_next_wo_fakequant'' [];
          prepared2 = del_fakequant_after_module prepared1
            (module_next_wo_fakequant @ extra_module_next_wo_fakequant) True;
          extra_function_prev_wo_fakequant =
            dict_get (extra_redundant_fakequants self) ''extra_function_prev_wo_fakequant'' [];
          prepared3 = del_fakequant_before_method prepared2
            (function_prev_wo_fakequant @ extra_function_prev_wo_fakequant) True;
          extra_function_next_wo_fakequant =
            dict_get (extra_redundant_fakequants self) ''extra_function_next_wo_fakequant'' [];
          prepared4 = del_fakequant_after_method prepared3
            (function_next_wo_fakequant @ extra_function_next_wo_fakequant) True;
          extra_method_prev_wo_fakequant =
            dict_get (extra_redundant_fakequants self) ''extra_method_prev_wo_fakequant'' [];
          prepared5 = del_fakequant_before_function prepared4
            (method_prev_wo_fakequant @ extra_method_prev_wo_fakequant) True;
          extra_method_next_wo_fakequant =
            dict_get (extra_redundant_fakequants self) ''extra_method_next_wo_fakequant'' [];
          prepared6 = del_fakequant_after_function prepared5
            (method_next_wo_fakequant @ extra_method_next_wo_fakequant) True;
          extra_op_prev_wo_fakequant =
            dict_get (extra_redundant_fakequants self) ''extra_op_prev_wo_fakequant'' [];
          prepared7 = del_fakequant_before_op prepared6
            (op_prev_wo_fakequant @ extra_op_prev_wo_fakequant) True;
          extra_op_next_wo_fakequant =
            dict_get (extra_redundant_fakequants self) ''extra_op_next_wo_fakequant'' [];
          prepared8 = del_fakequant_after_op prepared7
            (op_next_wo_fakequant @ extra_op_next_wo_fakequant) True
      in prepared8)"

subsection \<open>prepare (lines 151-184)\<close>

text \<open>
  torch's \<^verbatim>\<open>_fuse_fx\<close> and \<^verbatim>\<open>prepare\<close>, with the keyword arguments of the source
  in the order the source writes them.
\<close>

record ('c, 'b, 'sc, 'x) torch_fx =
  fuse_fx :: "graph \<Rightarrow> bool \<Rightarrow> 'b \<Rightarrow> graph"
  fx_prepare :: "graph \<Rightarrow> 'c QConfigMapping \<Rightarrow> bool \<Rightarrow> 'sc \<Rightarrow> 'x \<Rightarrow> 'b \<Rightarrow> graph"

text \<open>
  The observed graph module torch returns is a new object: the one cell of a new
  store. The method returns the object the pruner hands back.
\<close>

definition prepare ::
  "('c, 'b, 'sc, 'x) torch_fx \<Rightarrow> ('c, 'b, 'sc, 'x) quantizer \<Rightarrow> 'm \<Rightarrow> graph \<Rightarrow> graph" where
  "prepare fx self model graph_module =
     (let graph_module1 = fuse_fx fx graph_module True (backend_config self);
          prepared = fx_prepare fx graph_module1 (qconfig_mapping self) True
                       (node_name_to_scope (tracer self)) (example_inputs self)
                       (backend_config self);
          prepared1 = del_redundant_fakequant self ([prepared], 0)
      in fst prepared1 ! snd prepared1)"

subsection \<open>The module tree\<close>

text \<open>
  A module as \<^verbatim>\<open>post_process_weight_fakequant\<close> sees it: its class and the
  classes it inherits from (for \<^verbatim>\<open>isinstance\<close>), the tensor \<^verbatim>\<open>weight.data\<close>,
  the attribute \<^verbatim>\<open>qconfig\<close>, its named children in order, and the rest of its
  state as an opaque value of type \<open>'s\<close>: buffers, flags, normalization statistics
  and the fake-quantizer behind \<^verbatim>\<open>weight_fake_quant\<close>. The specification calls
  the hierarchy a tree, and so no module is shared between two parents.
\<close>

datatype ('w, 's, 'c) module =
  Module (mclass: cls) (bases: "cls list") (weight: 'w) (state: 's)
    (qconfig_attr: "'c option") (named_children: "(string \<times> ('w, 's, 'c) module) list")

text \<open>
  A call of a module's \<^verbatim>\<open>weight_fake_quant\<close> on a tensor: the module's state
  after the call (the fake-quantizer observes what it is given), the argument as
  the call leaves it (a fake-quantizer may write into its argument), and the tensor
  the call returns.
\<close>

record ('s, 'w) fq_result =
  new_state :: 's
  arg_after :: 'w
  returned :: 'w

text \<open>
  What the method uses of torch: the version test of lines 39-60,
  \<^verbatim>\<open>enable_fake_quant\<close> on one module's state, the call of
  \<^verbatim>\<open>weight_fake_quant\<close>, \<^verbatim>\<open>to_float\<close> and the class method
  \<^verbatim>\<open>from_float\<close>.
\<close>

record ('w, 's, 'c) torch_nn =
  torch_ge_1_13 :: bool
  enable_fake_quant :: "'s \<Rightarrow> 's"
  weight_fake_quant :: "'s \<Rightarrow> 'w \<Rightarrow> ('s, 'w) fq_result"
  to_float :: "('w, 's, 'c) module \<Rightarrow> ('w, 's, 'c) module"
  from_float :: "cls \<Rightarrow> ('w, 's, 'c) module \<Rightarrow> ('w, 's, 'c) module"

definition isinstance :: "('w, 's, 'c) module \<Rightarrow> cls list \<Rightarrow> bool" where
  "isinstance m cs = list_ex (\<lambda>c. c \<in> set cs) (mclass m # bases m)"

fun set_weight :: "'w \<Rightarrow> ('w, 's, 'c) module \<Rightarrow> ('w, 's, 'c) module" where
  "set_weight w' (Module c b w s q ch) = Module c b w' s q ch"

fun set_state :: "'s \<Rightarrow> ('w, 's, 'c) module \<Rightarrow> ('w, 's, 'c) module" where
  "set_state s' (Module c b w s q ch) = Module c b w s' q ch"

text \<open>
  \<^verbatim>\<open>Module.apply(fn)\<close>: the children first, then the module itself. The function
  here is \<^verbatim>\<open>enable_fake_quant\<close>, which touches one module's own state.
\<close>

fun module_apply :: "('s \<Rightarrow> 's) \<Rightarrow> ('w, 's, 'c) module \<Rightarrow> ('w, 's, 'c) module"
  and module_apply_children ::
    "('s \<Rightarrow> 's) \<Rightarrow> (string \<times> ('w, 's, 'c) module) list \<Rightarrow> (string \<times> ('w, 's, 'c) module) list" where
  "module_apply fn (Module c b w s q ch) = Module c b w (fn s) q (module_apply_children fn ch)"
| "module_apply_children fn [] = []"
| "module_apply_children fn ((n, m) # rest) = (n, module_apply fn m) # module_apply_children fn rest"

text \<open>
  Lines 223-224: \<^verbatim>\<open>for m in float_child.modules(): setattr(m, 'qconfig', ...)\<close>,
  the module itself and every descendant.
\<close>

fun set_qconfig :: "'c \<Rightarrow> ('w, 's, 'c) module \<Rightarrow> ('w, 's, 'c) module"
  and set_qconfig_children ::
    "'c \<Rightarrow> (string \<times> ('w, 's, 'c) module) list \<Rightarrow> (string \<times> ('w, 's, 'c) module) list" where
  "set_qconfig qc (Module c b w s q ch) = Module c b w s (Some qc) (set_qconfig_children qc ch)"
| "set_qconfig_children qc [] = []"
| "set_qconfig_children qc ((n, m) # rest) = (n, set_qconfig qc m) # set_qconfig_children qc rest"

subsection \<open>post_process_weight_fakequant (lines 186-240)\<close>

text \<open>
  Lines 211-234, the branch for a child that is an instance of a supported class.
  Beside the replacement the function returns a ghost log: one entry for every call
  of a weight fake-quantizer, holding the state of the module called and the tensor
  given. Line 212 assigns the returned tensor to \<^verbatim>\<open>child.weight.data\<close>; line 232
  drops it, so the new child keeps the argument as the call left it.
\<close>

definition convert_child ::
  "('w, 's, 'c) torch_nn \<Rightarrow> ('c, 'b, 'sc, 'x) quantizer \<Rightarrow> bool \<Rightarrow> ('w, 's, 'c) module \<Rightarrow>
   ('w, 's, 'c) module \<times> ('s \<times> 'w) list" where
  "convert_child nn self keep_fake_quant child =
     (let r1 = weight_fake_quant nn (state child) (weight child);
          child1 = set_weight (returned r1) (set_state (new_state r1) child);
          float_child = to_float nn child1
      in if keep_fake_quant then
           let float_child1 = set_qconfig (convert (qconfig self)) float_child;
               new_child =
                 (case map_of (MERGE_BN_MAPPINGS (torch_ge_1_13 nn)) (mclass child) of
                    Some c \<Rightarrow> from_float nn c float_child1
                  | None \<Rightarrow> from_float nn (mclass child) float_child1);
               r2 = weight_fake_quant nn (state new_child) (weight new_child);
               new_child1 = set_weight (arg_after r2) (set_state (new_state r2) new_child)
           in (new_child1, [(state child, weight child), (state new_child, weight new_child)])
         else (float_child, [(state child, weight child)]))"

text \<open>
  Lines 203-237. The loop over \<^verbatim>\<open>named_children()\<close> is the recursion over the
  list; \<^verbatim>\<open>setattr(module, name, new_child)\<close> puts the replacement in the child's
  place; a child of no supported class is traversed, and mutated in place.
\<close>

fun traverse ::
    "('w, 's, 'c) torch_nn \<Rightarrow> ('c, 'b, 'sc, 'x) quantizer \<Rightarrow> bool \<Rightarrow> ('w, 's, 'c) module \<Rightarrow>
     ('w, 's, 'c) module \<times> ('s \<times> 'w) list"
  and traverse_children ::
    "('w, 's, 'c) torch_nn \<Rightarrow> ('c, 'b, 'sc, 'x) quantizer \<Rightarrow> bool \<Rightarrow>
     (string \<times> ('w, 's, 'c) module) list \<Rightarrow> (string \<times> ('w, 's, 'c) module) list \<times> ('s \<times> 'w) list" where
  "traverse nn self keep (Module c b w s q ch) =
     (case traverse_children nn self keep ch of
        (ch', calls) \<Rightarrow> (Module c b w s q ch', calls))"
| "traverse_children nn self keep [] = ([], [])"
| "traverse_children nn self keep ((n, child) # rest) =
     (case (if isinstance child (SUPPORT_QAT_MODULES (torch_ge_1_13 nn))
            then convert_child nn self keep child
            else traverse nn self keep child) of
        (new_child, calls) \<Rightarrow>
          (case traverse_children nn self keep rest of
             (rest', calls') \<Rightarrow> ((n, new_child) # rest', calls @ calls')))"

text \<open>Lines 239-240; \<^verbatim>\<open>keep_fake_quant\<close> defaults to \<^verbatim>\<open>False\<close>.\<close>

definition post_process_weight_fakequant ::
  "('w, 's, 'c) torch_nn \<Rightarrow> ('c, 'b, 'sc, 'x) quantizer \<Rightarrow> ('w, 's, 'c) module \<Rightarrow> bool \<Rightarrow>
   ('w, 's, 'c) module \<times> ('s \<times> 'w) list" where
  "post_process_weight_fakequant nn self observed_module keep_fake_quant =
     traverse nn self keep_fake_quant (module_apply (enable_fake_quant nn) observed_module)"

text \<open>
  The children the traversal converts: the instances of a supported class that it
  meets, in the order it meets them. It does not look inside one.
\<close>

fun qat_children :: "cls list \<Rightarrow> ('w, 's, 'c) module \<Rightarrow> ('w, 's, 'c) module list"
  and qat_children_list :: "cls list \<Rightarrow> (string \<times> ('w, 's, 'c) module) list \<Rightarrow> ('w, 's, 'c) module list" where
  "qat_children supp (Module c b w s q ch) = qat_children_list supp ch"
| "qat_children_list supp [] = []"
| "qat_children_list supp ((n, child) # rest) =
     (if isinstance child supp then [child] else qat_children supp child) @ qat_children_list supp rest"

subsection \<open>Notions the statements use\<close>

text \<open>The classes the constructor registers: those of a non-empty argument.\<close>

definition no_observer_classes :: "('g, 'c, 'b, 'sc, 'x) collaborators \<Rightarrow> string list option \<Rightarrow> cls list" where
  "no_observer_classes env arg =
     (case arg of None \<Rightarrow> [] | Some names \<Rightarrow> if names = [] then [] else str2class env names)"


text \<open>
  The eight passes as \<^verbatim>\<open>del_redundant_fakequant\<close> wires them: the side, the kind of
  call of the helper called, and the list handed to it.
\<close>

definition redundant_passes :: "('c, 'b, 'sc, 'x) quantizer \<Rightarrow> (side \<times> call_kind \<times> string list) list" where
  "redundant_passes self =
     (let extra = extra_redundant_fakequants self in
      [(Before, call_module, module_prev_wo_fakequant @ dict_get extra ''extra_module_prev_wo_fakequant'' []),
       (After, call_module, module_next_wo_fakequant @ dict_get extra ''extra_module_next_wo_fakequant'' []),
       (Before, call_method, function_prev_wo_fakequant @ dict_get extra ''extra_function_prev_wo_fakequant'' []),
       (After, call_method, function_next_wo_fakequant @ dict_get extra ''extra_function_next_wo_fakequant'' []),
       (Before, call_function, method_prev_wo_fakequant @ dict_get extra ''extra_method_prev_wo_fakequant'' []),
       (After, call_function, method_next_wo_fakequant @ dict_get extra ''extra_method_next_wo_fakequant'' []),
       (Before, call_op, op_prev_wo_fakequant @ dict_get extra ''extra_op_prev_wo_fakequant'' []),
       (After, call_op, op_next_wo_fakequant @ dict_get extra ''extra_op_next_wo_fakequant'' [])])"

definition prune_all :: "(side \<times> call_kind \<times> string list) list \<Rightarrow> graph \<Rightarrow> graph" where
  "prune_all ps g = fold (\<lambda>(sd, k, es). prune sd k es) ps g"

text \<open>
  Modelled from the spec: what sections 3 and 4.2 say of a prepared graph. The names
  of its nodes are unique, and "within a single edge at most one fake-quant node can
  exist": no fake-quant node observes another fake-quant node.
\<close>

definition prepared_graph :: "graph \<Rightarrow> bool" where
  "prepared_graph g =
     (distinct (map fst g) \<and>
      list_all (\<lambda>(n, nd). case nd of FakeQuant p \<Rightarrow> \<not> is_fakequant g p | Call k c xs \<Rightarrow> True) g)"

text \<open>
  A place in the module tree: the positions of the children to follow from the root.
\<close>

fun submodule :: "('w, 's, 'c) module \<Rightarrow> nat list \<Rightarrow> ('w, 's, 'c) module option" where
  "submodule m [] = Some m"
| "submodule m (i # p) =
     (if i < length (named_children m) then submodule (snd (named_children m ! i)) p else None)"

text \<open>
  The places the traversal reaches: the children of the root, and the children of a
  module it has reached that is no instance of a supported class.
\<close>

fun reached :: "cls list \<Rightarrow> ('w, 's, 'c) module \<Rightarrow> nat list \<Rightarrow> bool" where
  "reached supp m [] = False"
| "reached supp m [i] = (i < length (named_children m))"
| "reached supp m (i # j # p) =
     (i < length (named_children m) \<and> \<not> isinstance (snd (named_children m ! i)) supp
      \<and> reached supp (snd (named_children m ! i)) (j # p))"

text \<open>
  A batchnorm submodule: a module somewhere below that is an instance of one of
  torch's three batchnorm classes.
\<close>

definition batchnorm_classes :: "cls list" where
  "batchnorm_classes =
     [OtherClass ''BatchNorm1d'', OtherClass ''BatchNorm2d'', OtherClass ''BatchNorm3d'']"

fun has_batchnorm :: "('w, 's, 'c) module \<Rightarrow> bool"
  and has_batchnorm_list :: "(string \<times> ('w, 's, 'c) module) list \<Rightarrow> bool" where
  "has_batchnorm (Module c b w s q ch) = has_batchnorm_list ch"
| "has_batchnorm_list [] = False"
| "has_batchnorm_list ((n, m) # rest) =
     (isinstance m batchnorm_classes \<or> has_batchnorm m \<or> has_batchnorm_list rest)"

subsection \<open>Concrete inputs\<close>

text \<open>
  Collaborators over small types: a raw configuration is the pair of the two
  per-channel flags, a class is resolved by its name, and the backend table holds
  the key \<^verbatim>\<open>'native'\<close>.
\<close>

definition example_collaborators :: "(bool \<times> bool, nat, nat, nat, nat) collaborators" where
  "example_collaborators =
     \<lparr>build_tracer = (\<lambda>cfg. \<lparr>node_name_to_scope = 0\<rparr>),
      QConfigHander = (\<lambda>(w, a). \<lparr>w_qscheme = \<lparr>is_per_channel = w\<rparr>,
                                   a_qscheme = \<lparr>is_per_channel = a\<rparr>, convert = 8\<rparr>),
      str2class = map OtherClass,
      BackendConfigs = [(''native'', 1)],
      randn = (\<lambda>shape. 0)\<rparr>"

text \<open>
  The quantizer the constructor builds from them for a per-channel weight scheme, a
  per-tensor activation scheme, no \<^verbatim>\<open>no_observer_modules\<close> and the given extra
  lists.
\<close>

definition example_quantizer :: "(string \<times> string list) list \<Rightarrow> (nat, nat, nat, nat) quantizer" where
  "example_quantizer extra =
     \<lparr>tracer = \<lparr>node_name_to_scope = 0\<rparr>,
      qconfig = \<lparr>w_qscheme = \<lparr>is_per_channel = True\<rparr>,
                 a_qscheme = \<lparr>is_per_channel = False\<rparr>, convert = 8\<rparr>,
      qconfig_mapping = \<lparr>global_qconfig = Some 8, object_type_qconfigs = []\<rparr>,
      no_observer_modules = None, backend_config = 1, example_inputs = 0,
      extra_redundant_fakequants = extra\<rparr>"

text \<open>
  Three prepared graphs: an input, a fake-quant node on it, and a call of
  \<^verbatim>\<open>relu\<close> on the fake-quantized value, as a function and as a method; and
  a graph in which a fake-quant node observes another.
\<close>

definition function_graph :: graph where
  "function_graph =
     [(''x'', Call call_op ''placeholder'' []),
      (''fq'', FakeQuant ''x''),
      (''relu'', Call call_function ''relu'' [''fq'']),
      (''output'', Call call_op ''output'' [''relu''])]"

definition method_graph :: graph where
  "method_graph =
     [(''x'', Call call_op ''placeholder'' []),
      (''fq'', FakeQuant ''x''),
      (''relu'', Call call_method ''relu'' [''fq'']),
      (''output'', Call call_op ''output'' [''relu''])]"

definition chain_graph :: graph where
  "chain_graph =
     [(''x'', Call call_op ''placeholder'' []),
      (''fq1'', FakeQuant ''x''),
      (''fq2'', FakeQuant ''fq1''),
      (''relu'', Call call_method ''relu'' [''fq2'']),
      (''output'', Call call_op ''output'' [''relu''])]"

text \<open>
  A torch over integers: fusion keeps the graph in training mode and empties it
  otherwise, and observer insertion answers with the method graph.
\<close>

definition example_fx :: "(nat, nat, nat, nat) torch_fx" where
  "example_fx =
     \<lparr>fuse_fx = (\<lambda>g is_qat bc. if is_qat then g else []),
      fx_prepare = (\<lambda>g mapping is_qat scope inputs bc. if is_qat \<and> g \<noteq> [] then method_graph else [])\<rparr>"

text \<open>
  A fake-quantizer that counts its calls in the state, leaves its argument alone and
  returns a quarter of it; \<^verbatim>\<open>to_float\<close> scales the weight by ten;
  \<^verbatim>\<open>from_float\<close> builds an instance of the class it is called on.
\<close>

definition example_nn :: "(int, nat, nat) torch_nn" where
  "example_nn =
     \<lparr>torch_ge_1_13 = True,
      enable_fake_quant = (\<lambda>s. s),
      weight_fake_quant = (\<lambda>s w. \<lparr>new_state = Suc s, arg_after = w, returned = w div 4\<rparr>),
      to_float = (\<lambda>m. Module (OtherClass ''float'') [] (10 * weight m) (state m) (qconfig_attr m) []),
      from_float = (\<lambda>c m. Module c [] (weight m) 0 (qconfig_attr m) [])\<rparr>"

definition example_conv :: "(int, nat, nat) module" where
  "example_conv =
     Module ConvBnReLU2d [ConvBn2d] 8 0 None
       [(''bn'', Module (OtherClass ''BatchNorm2d'') [] 0 0 None [])]"

definition example_model :: "(int, nat, nat) module" where
  "example_model =
     Module (OtherClass ''GraphModule'') [] 0 0 None
       [(''conv'', example_conv),
        (''head'', Module (OtherClass ''Head'') [] 0 0 None
                    [(''fc'', Module LinearBn1d [] 12 0 None [])])]"

text \<open>
  The same torch with a \<^verbatim>\<open>from_float\<close> that follows the layout of the classes:
  an instance of a class fused with a batchnorm has a \<^verbatim>\<open>bn\<close> submodule, an
  instance of any other class has no submodule.
\<close>

definition example_nn_layout :: "(int, nat, nat) torch_nn" where
  "example_nn_layout =
     example_nn\<lparr>from_float := (\<lambda>c m. Module c [] (weight m) 0 (qconfig_attr m)
        (if c \<in> {ConvBn1d, ConvBn2d, ConvBn3d, ConvBnReLU1d, ConvBnReLU2d, ConvBnReLU3d, LinearBn1d}
         then [(''bn'', Module (OtherClass ''BatchNorm2d'') [] 0 0 None [])] else []))\<rparr>"







section \<open>Properties\<close>

subsection \<open>The query properties\<close>

text \<open>
  C10. On every instance \<^verbatim>\<open>backend\<close> is \<^verbatim>\<open>'native'\<close>, \<^verbatim>\<open>support_w_modes\<close> is
  \<^verbatim>\<open>['per_tensor', 'per_channel']\<close>, \<^verbatim>\<open>support_a_modes\<close> is
  \<^verbatim>\<open>['per_tensor']\<close>, and each of the eight base lists is the empty tuple.
\<close>

theorem query_properties_fixed:
  "backend = ''native'' \<and> support_w_modes = [''per_tensor'', ''per_channel'']
   \<and> support_a_modes = [''per_tensor'']
   \<and> module_prev_wo_fakequant = [] \<and> module_next_wo_fakequant = []
   \<and> function_prev_wo_fakequant = [] \<and> function_next_wo_fakequant = []
   \<and> method_prev_wo_fakequant = [] \<and> method_next_wo_fakequant = []
   \<and> op_prev_wo_fakequant = [] \<and> op_next_wo_fakequant = []"
  by (simp add: backend_def support_w_modes_def support_a_modes_def
      module_prev_wo_fakequant_def module_next_wo_fakequant_def
      function_prev_wo_fakequant_def function_next_wo_fakequant_def
      method_prev_wo_fakequant_def method_next_wo_fakequant_def
      op_prev_wo_fakequant_def op_next_wo_fakequant_def)

subsection \<open>prepare_for_mmdeploy\<close>

text \<open>
  C7. Whatever the quantizer, the model, the dummy input and the checkpoint, the
  call raises \<^verbatim>\<open>NotImplementedError\<close> and leaves the model as it was.
\<close>

theorem prepare_for_mmdeploy_not_implemented:
  "prepare_for_mmdeploy self model dummy_input checkpoint = (model, Inl NotImplementedError)"
  by (simp add: prepare_for_mmdeploy_def)

theorem prepare_for_mmdeploy_not_implemented_witness:
  "(prepare_for_mmdeploy (example_quantizer []) example_model (0 :: nat) (Some ''latest.pth'')
      :: (int, nat, nat) module \<times> (error + unit))
   = (example_model, Inl NotImplementedError)"
  using prepare_for_mmdeploy_not_implemented [of "example_quantizer []" example_model 0 "Some ''latest.pth''"]
  by simp

subsection \<open>The constructor\<close>

text \<open>
  The constructor in one equation: the activation assert decides first, then the
  lookup in the backend table; the weight assert never fails, both weight modes
  being supported.
\<close>

lemma init_result:
  "init env g nom tr ex =
     (if is_per_channel (a_qscheme (QConfigHander env g)) then Inl AssertionError
      else case map_of (BackendConfigs env) ''native'' of
             None \<Rightarrow> Inl KeyError
           | Some bc \<Rightarrow>
               Inr \<lparr>tracer = build_tracer env tr, qconfig = QConfigHander env g,
                    qconfig_mapping = fold (\<lambda>m. set_object_type m None) (no_observer_classes env nom)
                       (set_global (convert (QConfigHander env g)) QConfigMapping_new),
                    no_observer_modules =
                      (case nom of None \<Rightarrow> None | Some names \<Rightarrow> Some (no_observer_classes env nom)),
                    backend_config = bc, example_inputs = randn env [1, 3, 224, 224],
                    extra_redundant_fakequants = ex\<rparr>)"
  by (auto simp: init_def Let_def support_w_modes_def support_a_modes_def backend_def
      no_observer_classes_def split: option.splits)

text \<open>
  C2. With a per-tensor activation scheme the construction succeeds, whatever the
  weight scheme (given that the backend table holds the backend's key). With a
  per-channel activation scheme it fails with the assertion error, whatever the other
  arguments and collaborators are: the mapping is not yet created and the backend
  table not yet read.
\<close>

theorem init_mode_check:
  "(\<not> is_per_channel (a_qscheme (QConfigHander env g)) \<and> map_of (BackendConfigs env) backend = Some bc
      \<longrightarrow> (\<exists>q. init env g nom tr ex = Inr q))
   \<and> (is_per_channel (a_qscheme (QConfigHander env g)) \<longrightarrow> init env g nom tr ex = Inl AssertionError)"
  by (simp add: init_result backend_def)

theorem init_mode_check_witness:
  "map_of (BackendConfigs example_collaborators) backend = Some 1
   \<and> (\<exists>q. init example_collaborators (True, False) None default_tracer
             default_extra_redundant_fakequants = Inr q)
   \<and> (\<exists>q. init example_collaborators (False, False) None default_tracer
             default_extra_redundant_fakequants = Inr q)
   \<and> init example_collaborators (False, True) (Some [''torch.nn.ReLU'']) default_tracer
        default_extra_redundant_fakequants = Inl AssertionError
   \<and> init (example_collaborators\<lparr>BackendConfigs := []\<rparr>) (True, True) None default_tracer
        default_extra_redundant_fakequants = Inl AssertionError"
  using init_mode_check [of example_collaborators "(True, False)" 1 None default_tracer
      default_extra_redundant_fakequants]
    init_mode_check [of example_collaborators "(False, False)" 1 None default_tracer
      default_extra_redundant_fakequants]
    init_mode_check [of example_collaborators "(False, True)" 1 "Some [''torch.nn.ReLU'']" default_tracer
      default_extra_redundant_fakequants]
    init_mode_check [of "example_collaborators\<lparr>BackendConfigs := []\<rparr>" "(True, True)" 1 None
      default_tracer default_extra_redundant_fakequants]
  by (simp add: example_collaborators_def backend_def)



subsection \<open>Erasing a fake-quant node\<close>

lemma is_fakequant_iff: "is_fakequant g n \<longleftrightarrow> (\<exists>p. map_of g n = Some (FakeQuant p))"
  by (auto simp: is_fakequant_def split: option.splits node.splits)

lemma map_of_erase:
  assumes "map_of g f = Some (FakeQuant p)"
  shows "map_of (erase_fakequant f g) n = (if n = f then None else map_option (redirect f p) (map_of g n))"
proof -
  have "map_of (filter (\<lambda>(n, nd). n \<noteq> f) g) n = (if n = f then None else map_of g n)"
    by (induction g) auto
  then show ?thesis
    using assms by (simp add: erase_fakequant_def map_of_map)
qed

lemma erase_not_fakequant: "\<not> is_fakequant g f \<Longrightarrow> erase_fakequant f g = g"
  by (auto simp: erase_fakequant_def is_fakequant_def split: option.splits node.splits)

lemma is_fakequant_erase: "is_fakequant (erase_fakequant f g) n \<longleftrightarrow> is_fakequant g n \<and> n \<noteq> f"
proof (cases "is_fakequant g f")
  case False
  then show ?thesis by (auto simp: erase_not_fakequant)
next
  case True
  then obtain p where p: "map_of g f = Some (FakeQuant p)" by (auto simp: is_fakequant_iff)
  show ?thesis
    unfolding is_fakequant_iff map_of_erase[OF p]
    by (cases "map_of g n"; cases "n = f"; simp) (rename_tac nd, case_tac nd, auto)
qed

lemma set_erase:
  assumes "map_of g f = Some (FakeQuant p)"
  shows "set (erase_fakequant f g) = (\<lambda>(n, nd). (n, redirect f p nd)) ` {(n, nd). (n, nd) \<in> set g \<and> n \<noteq> f}"
  using assms by (auto simp: erase_fakequant_def)

lemma prepared_graph_iff:
  "prepared_graph g \<longleftrightarrow>
     distinct (map fst g) \<and> (\<forall>n p. (n, FakeQuant p) \<in> set g \<longrightarrow> \<not> is_fakequant g p)"
  by (auto simp: prepared_graph_def list_all_iff split: node.splits)

lemma in_fakequants_before:
  "a \<in> set (fakequants_before k es g) \<longleftrightarrow>
     (\<exists>n nd. (n, nd) \<in> set g \<and> matches k es nd \<and> a \<in> set (call_args nd) \<and> is_fakequant g a)"
  by (auto simp: fakequants_before_def split: if_splits)

lemma in_fakequants_after:
  "a \<in> set (fakequants_after k es g) \<longleftrightarrow> (\<exists>p. (a, FakeQuant p) \<in> set g \<and> is_match g k es p)"
  by (auto simp: fakequants_after_def split: node.splits if_splits)

lemma matches_redirect: "matches k es (redirect f p nd) = matches k es nd"
  by (cases nd) auto

text \<open>Erasing keeps a prepared graph prepared.\<close>

lemma prepared_erase:
  assumes "prepared_graph g"
  shows "prepared_graph (erase_fakequant f g)"
proof (cases "is_fakequant g f")
  case False
  then show ?thesis using assms by (simp add: erase_not_fakequant)
next
  case True
  then obtain p where p: "map_of g f = Some (FakeQuant p)" by (auto simp: is_fakequant_iff)
  have d: "distinct (map fst g)" and nc: "\<And>n q. (n, FakeQuant q) \<in> set g \<Longrightarrow> \<not> is_fakequant g q"
    using assms by (auto simp: prepared_graph_iff)
  have "map fst (erase_fakequant f g) = filter (\<lambda>n. n \<noteq> f) (map fst g)"
    using p by (simp add: erase_fakequant_def filter_map comp_def case_prod_unfold)
  then have d': "distinct (map fst (erase_fakequant f g))" using d by simp
  have "\<not> is_fakequant (erase_fakequant f g) q" if "(n, FakeQuant q) \<in> set (erase_fakequant f g)" for n q
  proof -
    from that obtain nd where nd: "(n, nd) \<in> set g" "n \<noteq> f" "FakeQuant q = redirect f p nd"
      unfolding set_erase[OF p] by auto
    then obtain i where i: "nd = FakeQuant i" "q = (if i = f then p else i)" by (cases nd) auto
    from nc nd(1) i(1) have "\<not> is_fakequant g i" by blast
    with True have "i \<noteq> f" by auto
    with i \<open>\<not> is_fakequant g i\<close> show ?thesis by (simp add: is_fakequant_erase)
  qed
  with d' show ?thesis unfolding prepared_graph_iff by blast
qed

text \<open>
  Erasing a node creates no new target of any pass, and the erased node is no target
  afterwards.
\<close>

lemma targets_erase:
  assumes "prepared_graph g"
  shows "set (fakequants_adjacent sd k es (erase_fakequant f g)) \<subseteq> set (fakequants_adjacent sd k es g) - {f}"
proof (cases "is_fakequant g f")
  case False
  have "f \<notin> set (fakequants_adjacent sd k es g)"
  proof (cases sd)
    case Before
    then show ?thesis using False by (auto simp: in_fakequants_before)
  next
    case After
    have "is_fakequant g f" if "(f, FakeQuant q) \<in> set g" for q
      using that assms by (auto simp: prepared_graph_iff is_fakequant_iff)
    then show ?thesis using False After by (auto simp: in_fakequants_after)
  qed
  then show ?thesis using False by (auto simp: erase_not_fakequant)
next
  case True
  then obtain p where p: "map_of g f = Some (FakeQuant p)" by (auto simp: is_fakequant_iff)
  then have fp: "(f, FakeQuant p) \<in> set g" by (rule map_of_SomeD)
  have nc: "\<And>n q. (n, FakeQuant q) \<in> set g \<Longrightarrow> \<not> is_fakequant g q"
    using assms by (auto simp: prepared_graph_iff)
  have np: "\<not> is_fakequant g p" using nc fp by blast
  show ?thesis
  proof (cases sd)
    case Before
    have "a \<in> set (fakequants_before k es g) \<and> a \<noteq> f"
      if "a \<in> set (fakequants_before k es (erase_fakequant f g))" for a
    proof -
      from that obtain n nd' where h: "(n, nd') \<in> set (erase_fakequant f g)" "matches k es nd'"
        "a \<in> set (call_args nd')" "is_fakequant (erase_fakequant f g) a"
        unfolding in_fakequants_before by blast
      from h(1) obtain nd where nd: "(n, nd) \<in> set g" "nd' = redirect f p nd"
        unfolding set_erase[OF p] by auto
      from h(4) have a: "is_fakequant g a" "a \<noteq> f" by (auto simp: is_fakequant_erase)
      from h(2) nd(2) have m: "matches k es nd" by (simp add: matches_redirect)
      from h(3) nd(2) a np have "a \<in> set (call_args nd)"
        by (cases nd) (auto split: if_splits)
      with nd(1) m a show ?thesis unfolding in_fakequants_before by blast
    qed
    with Before show ?thesis by auto
  next
    case After
    have "a \<in> set (fakequants_after k es g) \<and> a \<noteq> f"
      if "a \<in> set (fakequants_after k es (erase_fakequant f g))" for a
    proof -
      from that obtain q where h: "(a, FakeQuant q) \<in> set (erase_fakequant f g)"
        "is_match (erase_fakequant f g) k es q"
        unfolding in_fakequants_after by blast
      from h(1) obtain nd where nd: "(a, nd) \<in> set g" "a \<noteq> f" "FakeQuant q = redirect f p nd"
        unfolding set_erase[OF p] by auto
      then obtain i where i: "nd = FakeQuant i" "q = (if i = f then p else i)" by (cases nd) auto
      from nc nd(1) i(1) have "\<not> is_fakequant g i" by blast
      with True have "i \<noteq> f" by auto
      with i have qi: "q = i" by simp
      from h(2) have "is_match g k es q"
        unfolding is_match_def map_of_erase[OF p]
        by (auto simp: matches_redirect split: if_splits option.splits)
      with nd(1) i(1) qi nd(2) show ?thesis unfolding in_fakequants_after by blast
    qed
    with After show ?thesis by auto
  qed
qed

lemma prepared_fold_erase: "prepared_graph g \<Longrightarrow> prepared_graph (fold erase_fakequant fs g)"
  by (induction fs arbitrary: g) (auto simp: prepared_erase)

lemma targets_fold_erase:
  "prepared_graph g \<Longrightarrow>
   set (fakequants_adjacent sd k es (fold erase_fakequant fs g)) \<subseteq> set (fakequants_adjacent sd k es g) - set fs"
proof (induction fs arbitrary: g)
  case Nil
  then show ?case by simp
next
  case (Cons f fs)
  from Cons.prems have "prepared_graph (erase_fakequant f g)" by (rule prepared_erase)
  from Cons.IH[OF this] targets_erase[OF Cons.prems, of sd k es f]
  show ?case by auto
qed

subsection \<open>One pass, and the eight in a row\<close>

lemma prepared_prune: "prepared_graph g \<Longrightarrow> prepared_graph (prune sd k es g)"
  by (simp add: prune_def prepared_fold_erase)

lemma targets_prune_same: "prepared_graph g \<Longrightarrow> fakequants_adjacent sd k es (prune sd k es g) = []"
  using targets_fold_erase[of g sd k es "fakequants_adjacent sd k es g"]
  by (simp add: prune_def)

lemma targets_prune_other:
  "prepared_graph g \<Longrightarrow> fakequants_adjacent sd k es g = [] \<Longrightarrow>
   fakequants_adjacent sd k es (prune sd' k' es' g) = []"
  using targets_fold_erase[of g sd k es "fakequants_adjacent sd' k' es' g"]
  by (simp add: prune_def)

lemma prune_no_targets: "fakequants_adjacent sd k es g = [] \<Longrightarrow> prune sd k es g = g"
  by (simp add: prune_def)

lemma prune_all_Cons: "prune_all ((sd, k, es) # ps) g = prune_all ps (prune sd k es g)"
  by (simp add: prune_all_def)

lemma prepared_prune_all: "prepared_graph g \<Longrightarrow> prepared_graph (prune_all ps g)"
proof (induction ps arbitrary: g)
  case Nil
  then show ?case by (simp add: prune_all_def)
next
  case (Cons p ps)
  obtain sd k es where p: "p = (sd, k, es)" by (cases p)
  show ?case unfolding p prune_all_Cons
    by (rule Cons.IH) (simp add: Cons.prems prepared_prune)
qed

lemma targets_prune_all_mono:
  "prepared_graph g \<Longrightarrow> fakequants_adjacent sd k es g = [] \<Longrightarrow>
   fakequants_adjacent sd k es (prune_all ps g) = []"
proof (induction ps arbitrary: g)
  case Nil
  then show ?case by (simp add: prune_all_def)
next
  case (Cons p ps)
  obtain sd' k' es' where p: "p = (sd', k', es')" by (cases p)
  show ?case
    unfolding p prune_all_Cons
    by (rule Cons.IH) (simp_all add: Cons.prems prepared_prune targets_prune_other)
qed

lemma targets_prune_all:
  "prepared_graph g \<Longrightarrow> (sd, k, es) \<in> set ps \<Longrightarrow> fakequants_adjacent sd k es (prune_all ps g) = []"
proof (induction ps arbitrary: g)
  case Nil
  then show ?case by simp
next
  case (Cons p ps)
  obtain sd' k' es' where p: "p = (sd', k', es')" by (cases p)
  have prep: "prepared_graph (prune sd' k' es' g)" using Cons.prems(1) by (rule prepared_prune)
  show ?case
  proof (cases "(sd, k, es) = p")
    case True
    then have "fakequants_adjacent sd k es (prune sd' k' es' g) = []"
      using Cons.prems(1) p by (simp add: targets_prune_same)
    with prep show ?thesis unfolding p prune_all_Cons by (rule targets_prune_all_mono)
  next
    case False
    with Cons.prems(2) have "(sd, k, es) \<in> set ps" by simp
    with prep show ?thesis unfolding p prune_all_Cons by (rule Cons.IH)
  qed
qed

lemma prune_all_fixed:
  "(\<And>sd k es. (sd, k, es) \<in> set ps \<Longrightarrow> fakequants_adjacent sd k es g = []) \<Longrightarrow> prune_all ps g = g"
proof (induction ps)
  case Nil
  then show ?case by (simp add: prune_all_def)
next
  case (Cons p ps)
  obtain sd' k' es' where p: "p = (sd', k', es')" by (cases p)
  have "prune sd' k' es' g = g" using Cons.prems[of sd' k' es'] p by (simp add: prune_no_targets)
  moreover have "prune_all ps g = g" using Cons.prems by (intro Cons.IH) simp
  ultimately show ?case unfolding p prune_all_Cons by simp
qed

lemma prune_all_idem: "prepared_graph g \<Longrightarrow> prune_all ps (prune_all ps g) = prune_all ps g"
  by (rule prune_all_fixed) (rule targets_prune_all)

subsection \<open>del_redundant_fakequant\<close>

text \<open>
  The method on a valid reference: the cell of the reference receives the graph after
  the eight passes, every other cell is as before, and the reference comes back.
\<close>

lemma del_redundant_fakequant_store:
  assumes "r < length h"
  shows "del_redundant_fakequant self (h, r) = (h[r := prune_all (redundant_passes self) (h ! r)], r)"
  using assms
  by (simp add: del_redundant_fakequant_def redundant_passes_def prune_all_def Let_def update_graph_def
      del_fakequant_before_module_def del_fakequant_after_module_def
      del_fakequant_before_function_def del_fakequant_after_function_def
      del_fakequant_before_method_def del_fakequant_after_method_def
      del_fakequant_before_op_def del_fakequant_after_op_def)

lemmas example_graph_defs =
  redundant_passes_def prune_all_def prune_def dict_get_def
  fakequants_before_def fakequants_after_def is_match_def is_fakequant_def erase_fakequant_def
  module_prev_wo_fakequant_def module_next_wo_fakequant_def
  function_prev_wo_fakequant_def function_next_wo_fakequant_def
  method_prev_wo_fakequant_def method_next_wo_fakequant_def
  op_prev_wo_fakequant_def op_next_wo_fakequant_def

text \<open>
  C6. On a prepared graph a second run of \<^verbatim>\<open>del_redundant_fakequant\<close> changes
  nothing, store and reference; the reference returned is the one given; and the
  store differs from the one given in the cell of that reference only, which holds
  the pruned graph.
\<close>

theorem del_redundant_fakequant_idempotent_in_place:
  assumes "r < length h" and "prepared_graph (h ! r)"
  shows "del_redundant_fakequant self (del_redundant_fakequant self (h, r)) = del_redundant_fakequant self (h, r)
       \<and> snd (del_redundant_fakequant self (h, r)) = r
       \<and> fst (del_redundant_fakequant self (h, r)) = h[r := prune_all (redundant_passes self) (h ! r)]"
proof -
  let ?g = "prune_all (redundant_passes self) (h ! r)"
  have one: "del_redundant_fakequant self (h, r) = (h[r := ?g], r)"
    using assms(1) by (rule del_redundant_fakequant_store)
  have "del_redundant_fakequant self (h[r := ?g], r)
      = (h[r := ?g, r := prune_all (redundant_passes self) (h[r := ?g] ! r)], r)"
    using assms(1) by (simp add: del_redundant_fakequant_store)
  also have "\<dots> = (h[r := ?g], r)"
    using assms by (simp add: prune_all_idem)
  finally show ?thesis using one by simp
qed

theorem del_redundant_fakequant_idempotent_in_place_witness:
  "(1 :: nat) < length [function_graph, method_graph] \<and> prepared_graph method_graph
   \<and> del_redundant_fakequant (example_quantizer [(''extra_function_prev_wo_fakequant'', [''relu''])])
       (del_redundant_fakequant (example_quantizer [(''extra_function_prev_wo_fakequant'', [''relu''])])
          ([function_graph, method_graph], 1))
     = del_redundant_fakequant (example_quantizer [(''extra_function_prev_wo_fakequant'', [''relu''])])
         ([function_graph, method_graph], 1)
   \<and> del_redundant_fakequant (example_quantizer [(''extra_function_prev_wo_fakequant'', [''relu''])])
       ([function_graph, method_graph], 1)
     = ([function_graph,
         [(''x'', Call call_op ''placeholder'' []),
          (''relu'', Call call_method ''relu'' [''x'']),
          (''output'', Call call_op ''output'' [''relu''])]], 1)"
proof -
  have len: "(1 :: nat) < length [function_graph, method_graph]" by simp
  have prep: "prepared_graph ([function_graph, method_graph] ! 1)"
    by (simp add: prepared_graph_def method_graph_def is_fakequant_def)
  have res: "fst (del_redundant_fakequant (example_quantizer [(''extra_function_prev_wo_fakequant'', [''relu''])])
       ([function_graph, method_graph], 1))
     = [function_graph,
         [(''x'', Call call_op ''placeholder'' []),
          (''relu'', Call call_method ''relu'' [''x'']),
          (''output'', Call call_op ''output'' [''relu''])]]"
    using del_redundant_fakequant_idempotent_in_place [OF len prep, THEN conjunct2, THEN conjunct2,
        of "example_quantizer [(''extra_function_prev_wo_fakequant'', [''relu''])]"]
    by (simp add: example_graph_defs example_quantizer_def method_graph_def)
  show ?thesis
    using del_redundant_fakequant_idempotent_in_place [OF len prep,
        of "example_quantizer [(''extra_function_prev_wo_fakequant'', [''relu''])]"] res prep
    by (auto simp: prod_eq_iff)
qed

text \<open>
  Without the invariant the second run can differ from the first: on a chain of two
  fake-quant nodes the first run erases the one next to the call, the second the
  other.
\<close>

lemma chain_graph_second_run_differs:
  "\<not> prepared_graph chain_graph
   \<and> del_redundant_fakequant (example_quantizer [(''extra_function_prev_wo_fakequant'', [''relu''])])
       ([chain_graph], 0)
     = ([[(''x'', Call call_op ''placeholder'' []),
          (''fq1'', FakeQuant ''x''),
          (''relu'', Call call_method ''relu'' [''fq1'']),
          (''output'', Call call_op ''output'' [''relu''])]], 0)
   \<and> del_redundant_fakequant (example_quantizer [(''extra_function_prev_wo_fakequant'', [''relu''])])
       ([[(''x'', Call call_op ''placeholder'' []),
          (''fq1'', FakeQuant ''x''),
          (''relu'', Call call_method ''relu'' [''fq1'']),
          (''output'', Call call_op ''output'' [''relu''])]], 0)
     = ([[(''x'', Call call_op ''placeholder'' []),
          (''relu'', Call call_method ''relu'' [''x'']),
          (''output'', Call call_op ''output'' [''relu''])]], 0)"
  by (simp add: del_redundant_fakequant_store example_graph_defs example_quantizer_def chain_graph_def
      prepared_graph_def)

text \<open>
  C1. The claim fails on the code. The quantizer is the one the constructor builds
  with \<^verbatim>\<open>extra_function_prev_wo_fakequant = ('relu',)\<close>. On a graph with a fake-quant
  node before the function call \<^verbatim>\<open>relu\<close> the method erases nothing, where the
  function pass with the function lists erases the node; and on a graph with a
  fake-quant node before the method call \<^verbatim>\<open>relu\<close> the method erases the node,
  though both method lists are empty.
\<close>

theorem function_lists_reach_the_method_passes:
  "init example_collaborators (True, False) None default_tracer
       [(''extra_function_prev_wo_fakequant'', [''relu''])]
     = Inr (example_quantizer [(''extra_function_prev_wo_fakequant'', [''relu''])])
   \<and> del_redundant_fakequant (example_quantizer [(''extra_function_prev_wo_fakequant'', [''relu''])])
       ([function_graph], 0) = ([function_graph], 0)
   \<and> fst (del_fakequant_before_function ([function_graph], 0)
       (function_prev_wo_fakequant @ [''relu'']) True)
     = [[(''x'', Call call_op ''placeholder'' []),
         (''relu'', Call call_function ''relu'' [''x'']),
         (''output'', Call call_op ''output'' [''relu''])]]
   \<and> del_redundant_fakequant (example_quantizer [(''extra_function_prev_wo_fakequant'', [''relu''])])
       ([method_graph], 0)
     = ([[(''x'', Call call_op ''placeholder'' []),
          (''relu'', Call call_method ''relu'' [''x'']),
          (''output'', Call call_op ''output'' [''relu''])]], 0)"
  by (simp add: init_result example_collaborators_def example_quantizer_def no_observer_classes_def
      set_global_def QConfigMapping_new_def
      del_redundant_fakequant_store example_graph_defs function_graph_def method_graph_def
      del_fakequant_before_function_def update_graph_def)

subsection \<open>prepare\<close>

text \<open>
  C4. For every torch, quantizer, model and graph the result of \<^verbatim>\<open>prepare\<close> is the
  graph that the eight passes of \<^verbatim>\<open>del_redundant_fakequant\<close> leave of the observed
  graph; the observed graph is torch's \<^verbatim>\<open>prepare\<close> on the fused graph with the
  quantizer's mapping, \<^verbatim>\<open>is_qat\<close> true and the tracer's \<^verbatim>\<open>node_name_to_scope\<close>;
  and the fused graph is \<^verbatim>\<open>_fuse_fx\<close> on the argument with \<^verbatim>\<open>is_qat\<close> true.
\<close>

theorem prepare_steps_in_order:
  "(let fused = fuse_fx fx graph_module True (backend_config self);
        observed = fx_prepare fx fused (qconfig_mapping self) True
                     (node_name_to_scope (tracer self)) (example_inputs self) (backend_config self);
        pruned = del_redundant_fakequant self ([observed], 0)
    in prepare fx self model graph_module = fst pruned ! snd pruned
     \<and> pruned = ([prune_all (redundant_passes self) observed], 0))"
  by (simp add: prepare_def Let_def del_redundant_fakequant_store)

theorem prepare_steps_in_order_witness:
  "prepare example_fx (example_quantizer [(''extra_method_prev_wo_fakequant'', [''relu''])]) example_model
     function_graph = method_graph
   \<and> prepare example_fx (example_quantizer [(''extra_function_prev_wo_fakequant'', [''relu''])]) example_model
     function_graph
     = [(''x'', Call call_op ''placeholder'' []),
        (''relu'', Call call_method ''relu'' [''x'']),
        (''output'', Call call_op ''output'' [''relu''])]"
proof -
  have observed: "fx_prepare example_fx (fuse_fx example_fx function_graph True b) mp True sc inp b = method_graph"
    for b mp sc inp
    by (simp add: example_fx_def function_graph_def)
  have one: "prepare example_fx (example_quantizer extra) example_model function_graph
      = prune_all (redundant_passes (example_quantizer extra)) method_graph" for extra
    using prepare_steps_in_order [of example_fx function_graph "example_quantizer extra" example_model]
    by (simp add: Let_def observed)
  have "prune_all (redundant_passes (example_quantizer [(''extra_method_prev_wo_fakequant'', [''relu''])]))
      method_graph = method_graph"
    by (simp add: example_quantizer_def example_graph_defs method_graph_def)
  moreover have "prune_all (redundant_passes (example_quantizer [(''extra_function_prev_wo_fakequant'', [''relu''])]))
      method_graph
     = [(''x'', Call call_op ''placeholder'' []),
        (''relu'', Call call_method ''relu'' [''x'']),
        (''output'', Call call_op ''output'' [''relu''])]"
    by (simp add: example_quantizer_def example_graph_defs method_graph_def)
  ultimately show ?thesis by (simp add: one)
qed


subsection \<open>The mapping after construction, and prepare\<close>






subsection \<open>post_process_weight_fakequant\<close>

lemma mclass_set_weight [simp]: "mclass (set_weight w m) = mclass m"
  by (cases m) simp

lemma mclass_set_state [simp]: "mclass (set_state s m) = mclass m"
  by (cases m) simp

lemma weight_set_weight [simp]: "weight (set_weight w m) = w"
  by (cases m) simp

lemma weight_set_state [simp]: "weight (set_state s m) = weight m"
  by (cases m) simp

lemma state_set_state [simp]: "state (set_state s m) = s"
  by (cases m) simp

lemma state_set_weight [simp]: "state (set_weight w m) = state m"
  by (cases m) simp

text \<open>
  The log of a traversal is the logs of the converted children, one after the other.
\<close>

lemma traverse_calls:
  "snd (traverse nn self keep m) =
     concat (map (\<lambda>c. snd (convert_child nn self keep c))
       (qat_children (SUPPORT_QAT_MODULES (torch_ge_1_13 nn)) m))"
  "snd (traverse_children nn self keep ch) =
     concat (map (\<lambda>c. snd (convert_child nn self keep c))
       (qat_children_list (SUPPORT_QAT_MODULES (torch_ge_1_13 nn)) ch))"
  by (induction nn self keep m and nn self keep ch rule: traverse_traverse_children.induct)
    (auto split: prod.splits)

lemma isinstance_own_class: "mclass m \<in> set cs \<Longrightarrow> isinstance m cs"
  by (simp add: isinstance_def)

lemma merge_key_supported:
  "map_of (MERGE_BN_MAPPINGS v) c = Some t \<Longrightarrow> c \<in> set (SUPPORT_QAT_MODULES v)"
  by (auto simp: MERGE_BN_MAPPINGS_def SUPPORT_QAT_MODULES_def split: if_splits)

lemma merge_target:
  "map_of (MERGE_BN_MAPPINGS v) c = Some t \<Longrightarrow>
     map_of (MERGE_BN_MAPPINGS v) t = None
     \<and> t \<in> {Conv1d, Conv2d, Conv3d, ConvReLU1d, ConvReLU2d, ConvReLU3d, Linear}"
  by (auto simp: MERGE_BN_MAPPINGS_def split: if_splits)

lemmas example_nn_defs =
  example_nn_def example_model_def example_conv_def example_quantizer_def
  convert_child_def isinstance_def SUPPORT_QAT_MODULES_def MERGE_BN_MAPPINGS_def

text \<open>
  The tree of a traversal: every child that is an instance of a supported class is
  replaced by what \<^verbatim>\<open>convert_child\<close> makes of it, every other child by its own
  traversal, and the module itself keeps its fields.
\<close>

lemma traverse_children_map:
  "fst (traverse_children nn self keep ch) =
     map (\<lambda>(n, c). (n, if isinstance c (SUPPORT_QAT_MODULES (torch_ge_1_13 nn))
                        then fst (convert_child nn self keep c) else fst (traverse nn self keep c))) ch"
  by (induction ch) (auto split: prod.splits)

lemma named_children_traverse:
  "named_children (fst (traverse nn self keep m)) =
     map (\<lambda>(n, c). (n, if isinstance c (SUPPORT_QAT_MODULES (torch_ge_1_13 nn))
                        then fst (convert_child nn self keep c) else fst (traverse nn self keep c)))
       (named_children m)"
proof (cases m)
  case (Module c b w s q ch)
  obtain ch' calls where t: "traverse_children nn self keep ch = (ch', calls)"
    by (cases "traverse_children nn self keep ch")
  then have "ch' = map (\<lambda>(n, c). (n, if isinstance c (SUPPORT_QAT_MODULES (torch_ge_1_13 nn))
                        then fst (convert_child nn self keep c) else fst (traverse nn self keep c))) ch"
    using traverse_children_map [of nn self keep ch] by simp
  with t Module show ?thesis by simp
qed

lemma fields_traverse:
  "mclass (fst (traverse nn self keep m)) = mclass m"
  "bases (fst (traverse nn self keep m)) = bases m"
  "weight (fst (traverse nn self keep m)) = weight m"
  "state (fst (traverse nn self keep m)) = state m"
  "qconfig_attr (fst (traverse nn self keep m)) = qconfig_attr m"
  by (cases m; simp split: prod.splits)+

lemma submodule_traverse:
  "reached supp m p \<Longrightarrow> supp = SUPPORT_QAT_MODULES (torch_ge_1_13 nn) \<Longrightarrow>
   submodule m p = Some child \<Longrightarrow>
   submodule (fst (traverse nn self keep m)) p =
     Some (if isinstance child supp
           then fst (convert_child nn self keep child) else fst (traverse nn self keep child))"
proof (induction supp m p rule: reached.induct)
  case (1 supp m)
  then show ?case by simp
next
  case (2 supp m i)
  then show ?case
    by (simp add: named_children_traverse case_prod_unfold)
next
  case (3 supp m i j p)
  from "3.prems"(1) have i: "i < length (named_children m)"
    and ni: "\<not> isinstance (snd (named_children m ! i)) supp"
    and r: "reached supp (snd (named_children m ! i)) (j # p)"
    by simp_all
  from "3.prems"(3) i have s: "submodule (snd (named_children m ! i)) (j # p) = Some child"
    by simp
  have "submodule (fst (traverse nn self keep m)) (i # j # p) =
        submodule (fst (traverse nn self keep (snd (named_children m ! i)))) (j # p)"
    using i ni "3.prems"(2) by (simp add: named_children_traverse case_prod_unfold)
  with "3.IH" [OF r "3.prems"(2) s] show ?case by simp
qed

lemma module_apply_children_map:
  "module_apply_children fn ch = map (\<lambda>(n, c). (n, module_apply fn c)) ch"
  by (induction ch) auto

lemma fields_module_apply:
  "mclass (module_apply fn m) = mclass m"
  "bases (module_apply fn m) = bases m"
  "weight (module_apply fn m) = weight m"
  "state (module_apply fn m) = fn (state m)"
  "qconfig_attr (module_apply fn m) = qconfig_attr m"
  "named_children (module_apply fn m) = map (\<lambda>(n, c). (n, module_apply fn c)) (named_children m)"
  by (cases m; simp add: module_apply_children_map)+

lemma isinstance_module_apply: "isinstance (module_apply fn m) cs = isinstance m cs"
  by (simp add: isinstance_def fields_module_apply)

lemma submodule_module_apply:
  "submodule (module_apply fn m) p = map_option (module_apply fn) (submodule m p)"
  by (induction p arbitrary: m) (auto simp: fields_module_apply case_prod_unfold)

lemma reached_module_apply: "reached supp (module_apply fn m) p = reached supp m p"
  by (induction supp m p rule: reached.induct)
    (auto simp: fields_module_apply isinstance_module_apply case_prod_unfold)

lemma submodule_post_process:
  assumes "reached (SUPPORT_QAT_MODULES (torch_ge_1_13 nn)) observed_module p"
    and "submodule observed_module p = Some child0"
  shows "submodule (fst (post_process_weight_fakequant nn self observed_module keep)) p =
     Some (if isinstance child0 (SUPPORT_QAT_MODULES (torch_ge_1_13 nn))
           then fst (convert_child nn self keep (module_apply (enable_fake_quant nn) child0))
           else fst (traverse nn self keep (module_apply (enable_fake_quant nn) child0)))"
  unfolding post_process_weight_fakequant_def
  using submodule_traverse [of "SUPPORT_QAT_MODULES (torch_ge_1_13 nn)"
      "module_apply (enable_fake_quant nn) observed_module" p nn
      "module_apply (enable_fake_quant nn) child0" self keep] assms
  by (simp add: reached_module_apply submodule_module_apply isinstance_module_apply)

text \<open>
  C3. The calls of weight fake-quantizers that the method makes are those of the
  children it converts, child by child; a child whose class is a supported one is
  converted, and by \<^verbatim>\<open>convert_child\<close> once. For one child the calls are one when
  \<^verbatim>\<open>keep_fake_quant\<close> is false and two when it is true. The first is on the child's
  stored weight, and the module folded by \<^verbatim>\<open>to_float\<close> carries the tensor this call
  returned. The second is on the weight of the module \<^verbatim>\<open>from_float\<close> rebuilt
  from the folded one.

  The tree the method leaves: at every place the traversal reaches where the observed
  module holds an instance of a supported class (a module whose class is a supported
  one is such an instance), the result holds, when \<^verbatim>\<open>keep_fake_quant\<close> is false,
  \<^verbatim>\<open>to_float\<close> of the child with its stored weight overwritten by the tensor that
  the one call on this weight returned, and when it is true the module
  \<^verbatim>\<open>from_float\<close> rebuilt from that, after the second call on its weight. The
  child is the one of the observed module with fake-quantization enabled, its weight
  untouched by the enabling. At a reached place that holds no such instance the module
  stays, traversed in its turn, with its class, weight, configuration and enabled
  state; so does the root.
\<close>

theorem weight_fake_quant_invocations:
  "snd (post_process_weight_fakequant nn self observed_module keep) =
     concat (map (\<lambda>c. snd (convert_child nn self keep c))
       (qat_children (SUPPORT_QAT_MODULES (torch_ge_1_13 nn))
          (module_apply (enable_fake_quant nn) observed_module)))
   \<and> (mclass child \<in> set (SUPPORT_QAT_MODULES (torch_ge_1_13 nn)) \<longrightarrow>
        traverse_children nn self keep [(n, child)] =
          ([(n, fst (convert_child nn self keep child))], snd (convert_child nn self keep child)))
   \<and> length (snd (convert_child nn self keep child)) = (if keep then 2 else 1)
   \<and> (let r1 = weight_fake_quant nn (state child) (weight child);
           float_child = to_float nn (set_weight (returned r1) (set_state (new_state r1) child));
           new_child = from_float nn
             (case map_of (MERGE_BN_MAPPINGS (torch_ge_1_13 nn)) (mclass child) of
                Some c \<Rightarrow> c | None \<Rightarrow> mclass child)
             (set_qconfig (convert (qconfig self)) float_child)
       in snd (convert_child nn self False child) = [(state child, weight child)]
        \<and> fst (convert_child nn self False child) = float_child
        \<and> snd (convert_child nn self True child) =
            [(state child, weight child), (state new_child, weight new_child)])
   \<and> (mclass child0 \<in> set (SUPPORT_QAT_MODULES (torch_ge_1_13 nn)) \<longrightarrow>
        isinstance child0 (SUPPORT_QAT_MODULES (torch_ge_1_13 nn)))
   \<and> (reached (SUPPORT_QAT_MODULES (torch_ge_1_13 nn)) observed_module p
        \<and> submodule observed_module p = Some child0
        \<and> isinstance child0 (SUPPORT_QAT_MODULES (torch_ge_1_13 nn)) \<longrightarrow>
        (let enabled = module_apply (enable_fake_quant nn) child0;
             r1 = weight_fake_quant nn (state enabled) (weight enabled);
             float_child = to_float nn (set_weight (returned r1) (set_state (new_state r1) enabled));
             new_child = from_float nn
               (case map_of (MERGE_BN_MAPPINGS (torch_ge_1_13 nn)) (mclass enabled) of
                  Some c \<Rightarrow> c | None \<Rightarrow> mclass enabled)
               (set_qconfig (convert (qconfig self)) float_child);
             r2 = weight_fake_quant nn (state new_child) (weight new_child)
         in weight enabled = weight child0
          \<and> state enabled = enable_fake_quant nn (state child0)
          \<and> mclass enabled = mclass child0
          \<and> submodule (fst (post_process_weight_fakequant nn self observed_module False)) p =
              Some float_child
          \<and> submodule (fst (post_process_weight_fakequant nn self observed_module True)) p =
              Some (set_weight (arg_after r2) (set_state (new_state r2) new_child))))
   \<and> (reached (SUPPORT_QAT_MODULES (torch_ge_1_13 nn)) observed_module p
        \<and> submodule observed_module p = Some child0
        \<and> \<not> isinstance child0 (SUPPORT_QAT_MODULES (torch_ge_1_13 nn)) \<longrightarrow>
        submodule (fst (post_process_weight_fakequant nn self observed_module keep)) p =
          Some (fst (traverse nn self keep (module_apply (enable_fake_quant nn) child0)))
        \<and> mclass (fst (traverse nn self keep (module_apply (enable_fake_quant nn) child0))) = mclass child0
        \<and> weight (fst (traverse nn self keep (module_apply (enable_fake_quant nn) child0))) = weight child0
        \<and> qconfig_attr (fst (traverse nn self keep (module_apply (enable_fake_quant nn) child0)))
            = qconfig_attr child0
        \<and> state (fst (traverse nn self keep (module_apply (enable_fake_quant nn) child0)))
            = enable_fake_quant nn (state child0))
   \<and> mclass (fst (post_process_weight_fakequant nn self observed_module keep)) = mclass observed_module
   \<and> weight (fst (post_process_weight_fakequant nn self observed_module keep)) = weight observed_module
   \<and> state (fst (post_process_weight_fakequant nn self observed_module keep))
       = enable_fake_quant nn (state observed_module)
   \<and> map fst (named_children (fst (post_process_weight_fakequant nn self observed_module keep)))
       = map fst (named_children observed_module)"
proof -
  let ?sup = "SUPPORT_QAT_MODULES (torch_ge_1_13 nn)"
  have calls: "snd (post_process_weight_fakequant nn self observed_module keep) =
     concat (map (\<lambda>c. snd (convert_child nn self keep c))
       (qat_children ?sup (module_apply (enable_fake_quant nn) observed_module)))"
    by (simp add: post_process_weight_fakequant_def traverse_calls)
  have one: "mclass child \<in> set ?sup \<longrightarrow>
        traverse_children nn self keep [(n, child)] =
          ([(n, fst (convert_child nn self keep child))], snd (convert_child nn self keep child))"
    by (auto simp: isinstance_own_class split: prod.splits)
  have count: "length (snd (convert_child nn self keep child)) = (if keep then 2 else 1)"
    by (simp add: convert_child_def Let_def)
  have child: "(let r1 = weight_fake_quant nn (state child) (weight child);
           float_child = to_float nn (set_weight (returned r1) (set_state (new_state r1) child));
           new_child = from_float nn
             (case map_of (MERGE_BN_MAPPINGS (torch_ge_1_13 nn)) (mclass child) of
                Some c \<Rightarrow> c | None \<Rightarrow> mclass child)
             (set_qconfig (convert (qconfig self)) float_child)
       in snd (convert_child nn self False child) = [(state child, weight child)]
        \<and> fst (convert_child nn self False child) = float_child
        \<and> snd (convert_child nn self True child) =
            [(state child, weight child), (state new_child, weight new_child)])"
    by (auto simp: convert_child_def Let_def split: option.splits)
  have inst: "mclass child0 \<in> set ?sup \<longrightarrow> isinstance child0 ?sup"
    by (simp add: isinstance_own_class)
  have place: "reached ?sup observed_module p \<and> submodule observed_module p = Some child0
        \<and> isinstance child0 ?sup \<longrightarrow>
        (let enabled = module_apply (enable_fake_quant nn) child0;
             r1 = weight_fake_quant nn (state enabled) (weight enabled);
             float_child = to_float nn (set_weight (returned r1) (set_state (new_state r1) enabled));
             new_child = from_float nn
               (case map_of (MERGE_BN_MAPPINGS (torch_ge_1_13 nn)) (mclass enabled) of
                  Some c \<Rightarrow> c | None \<Rightarrow> mclass enabled)
               (set_qconfig (convert (qconfig self)) float_child);
             r2 = weight_fake_quant nn (state new_child) (weight new_child)
         in weight enabled = weight child0
          \<and> state enabled = enable_fake_quant nn (state child0)
          \<and> mclass enabled = mclass child0
          \<and> submodule (fst (post_process_weight_fakequant nn self observed_module False)) p =
              Some float_child
          \<and> submodule (fst (post_process_weight_fakequant nn self observed_module True)) p =
              Some (set_weight (arg_after r2) (set_state (new_state r2) new_child)))"
    by (auto simp: submodule_post_process fields_module_apply convert_child_def Let_def
        split: option.splits)
  have other: "reached ?sup observed_module p \<and> submodule observed_module p = Some child0
        \<and> \<not> isinstance child0 ?sup \<longrightarrow>
        submodule (fst (post_process_weight_fakequant nn self observed_module keep)) p =
          Some (fst (traverse nn self keep (module_apply (enable_fake_quant nn) child0)))
        \<and> mclass (fst (traverse nn self keep (module_apply (enable_fake_quant nn) child0))) = mclass child0
        \<and> weight (fst (traverse nn self keep (module_apply (enable_fake_quant nn) child0))) = weight child0
        \<and> qconfig_attr (fst (traverse nn self keep (module_apply (enable_fake_quant nn) child0)))
            = qconfig_attr child0
        \<and> state (fst (traverse nn self keep (module_apply (enable_fake_quant nn) child0)))
            = enable_fake_quant nn (state child0)"
    by (simp add: submodule_post_process fields_traverse fields_module_apply)
  have root: "mclass (fst (post_process_weight_fakequant nn self observed_module keep)) = mclass observed_module"
    "weight (fst (post_process_weight_fakequant nn self observed_module keep)) = weight observed_module"
    "state (fst (post_process_weight_fakequant nn self observed_module keep))
       = enable_fake_quant nn (state observed_module)"
    "map fst (named_children (fst (post_process_weight_fakequant nn self observed_module keep)))
       = map fst (named_children observed_module)"
    by (simp_all add: post_process_weight_fakequant_def fields_traverse fields_module_apply
        named_children_traverse comp_def case_prod_unfold)
  from calls one count child inst place other root show ?thesis by blast
qed

theorem weight_fake_quant_invocations_witness:
  "snd (post_process_weight_fakequant example_nn (example_quantizer []) example_model True)
     = [(0, 8), (0, 20), (0, 12), (0, 30)]
   \<and> snd (post_process_weight_fakequant example_nn (example_quantizer []) example_model False)
     = [(0, 8), (0, 12)]
   \<and> mclass example_conv \<in> set (SUPPORT_QAT_MODULES (torch_ge_1_13 example_nn))
   \<and> traverse_children example_nn (example_quantizer []) True [(''conv'', example_conv)]
     = ([(''conv'', Module ConvReLU2d [] 20 1 (Some 8) [])], [(0, 8), (0, 20)])
   \<and> reached (SUPPORT_QAT_MODULES (torch_ge_1_13 example_nn)) example_model [1, 0]
   \<and> submodule example_model [1, 0] = Some (Module LinearBn1d [] 12 0 None [])
   \<and> isinstance (Module LinearBn1d [] 12 0 None [] :: (int, nat, nat) module)
       (SUPPORT_QAT_MODULES (torch_ge_1_13 example_nn))
   \<and> submodule (fst (post_process_weight_fakequant example_nn (example_quantizer []) example_model False))
       [1, 0] = Some (Module (OtherClass ''float'') [] 30 1 None [])
   \<and> submodule (fst (post_process_weight_fakequant example_nn (example_quantizer []) example_model True))
       [1, 0] = Some (Module Linear [] 30 1 (Some 8) [])"
proof -
  have children: "qat_children (SUPPORT_QAT_MODULES (torch_ge_1_13 example_nn))
      (module_apply (enable_fake_quant example_nn) example_model)
      = [example_conv, Module LinearBn1d [] 12 0 None []]"
    by (simp add: example_nn_defs)
  have conv: "convert_child example_nn (example_quantizer []) True example_conv
      = (Module ConvReLU2d [] 20 1 (Some 8) [], [(0, 8), (0, 20)])"
    by (simp add: example_nn_defs)
  have fc: "snd (convert_child example_nn (example_quantizer []) True (Module LinearBn1d [] 12 0 None []))
      = [(0, 12), (0, 30)]"
    by (simp add: example_nn_defs)
  have conv': "snd (convert_child example_nn (example_quantizer []) False example_conv) = [(0, 8)]"
    by (simp add: example_nn_defs)
  have fc': "snd (convert_child example_nn (example_quantizer []) False (Module LinearBn1d [] 12 0 None []))
      = [(0, 12)]"
    by (simp add: example_nn_defs)
  have sup: "mclass example_conv \<in> set (SUPPORT_QAT_MODULES (torch_ge_1_13 example_nn))"
    by (simp add: example_nn_defs)
  have r: "reached (SUPPORT_QAT_MODULES (torch_ge_1_13 example_nn)) example_model [1, 0]"
    by (simp add: example_nn_defs)
  have s: "submodule example_model [1, 0] = Some (Module LinearBn1d [] 12 0 None [])"
    by (simp add: example_nn_defs)
  have i: "isinstance (Module LinearBn1d [] 12 0 None [] :: (int, nat, nat) module)
       (SUPPORT_QAT_MODULES (torch_ge_1_13 example_nn))"
    by (simp add: example_nn_defs)
  have "snd (post_process_weight_fakequant example_nn (example_quantizer []) example_model True)
     = [(0, 8), (0, 20), (0, 12), (0, 30)]"
    using weight_fake_quant_invocations [of example_nn "example_quantizer []" example_model True,
        THEN conjunct1]
    by (simp add: children conv fc)
  moreover have "snd (post_process_weight_fakequant example_nn (example_quantizer []) example_model False)
     = [(0, 8), (0, 12)]"
    using weight_fake_quant_invocations [of example_nn "example_quantizer []" example_model False,
        THEN conjunct1]
    by (simp add: children conv' fc')
  moreover have "traverse_children example_nn (example_quantizer []) True [(''conv'', example_conv)]
     = ([(''conv'', Module ConvReLU2d [] 20 1 (Some 8) [])], [(0, 8), (0, 20)])"
    using weight_fake_quant_invocations [of example_nn "example_quantizer []" example_model True
        example_conv "''conv''", THEN conjunct2, THEN conjunct1] sup
    by (simp add: conv)
  moreover have "submodule (fst (post_process_weight_fakequant example_nn (example_quantizer [])
        example_model False)) [1, 0] = Some (Module (OtherClass ''float'') [] 30 1 None [])
      \<and> submodule (fst (post_process_weight_fakequant example_nn (example_quantizer [])
        example_model True)) [1, 0] = Some (Module Linear [] 30 1 (Some 8) [])"
    using weight_fake_quant_invocations [of example_nn "example_quantizer []" example_model True
        example_conv "''conv''" "Module LinearBn1d [] 12 0 None []" "[1, 0]",
        THEN conjunct2, THEN conjunct2, THEN conjunct2, THEN conjunct2, THEN conjunct2, THEN conjunct1]
      r s i
    by (simp add: Let_def example_nn_def example_quantizer_def MERGE_BN_MAPPINGS_def)
  ultimately show ?thesis using sup r s i by simp
qed

lemma has_batchnorm_set_weight [simp]: "has_batchnorm (set_weight w m) = has_batchnorm m"
  by (cases m) simp

lemma has_batchnorm_set_state [simp]: "has_batchnorm (set_state s m) = has_batchnorm m"
  by (cases m) simp

text \<open>
  C5. Two facts of torch are taken as hypotheses: \<^verbatim>\<open>from_float\<close> returns an
  instance of the class it is called on, and an instance it builds of one of the
  seven classes without normalization has no batchnorm submodule. With
  \<^verbatim>\<open>keep_fake_quant\<close> true, a child whose class has an entry in the merge mapping
  is replaced, in its place in the parent, by a module of the class the mapping gives,
  built by that class's \<^verbatim>\<open>from_float\<close> from the module \<^verbatim>\<open>to_float\<close> folded. That
  class is one of the seven without normalization, is none of the seven fused with a
  batchnorm, and has no entry in the mapping itself; and the replacement has no
  batchnorm submodule. The same holds of the module the method leaves at every place
  it reaches where the observed module holds such a child.
\<close>

theorem merged_replacement_class:
  assumes "\<forall>c m. mclass (from_float nn c m) = c"
    and "\<forall>c m. c \<in> {Conv1d, Conv2d, Conv3d, ConvReLU1d, ConvReLU2d, ConvReLU3d, Linear}
           \<longrightarrow> \<not> has_batchnorm (from_float nn c m)"
    and "map_of (MERGE_BN_MAPPINGS (torch_ge_1_13 nn)) (mclass child) = Some t"
  shows "mclass (fst (convert_child nn self True child)) = t
       \<and> fst (traverse_children nn self True [(n, child)]) = [(n, fst (convert_child nn self True child))]
       \<and> t \<in> {Conv1d, Conv2d, Conv3d, ConvReLU1d, ConvReLU2d, ConvReLU3d, Linear}
       \<and> t \<notin> {ConvBn1d, ConvBn2d, ConvBn3d, ConvBnReLU1d, ConvBnReLU2d, ConvBnReLU3d, LinearBn1d}
       \<and> map_of (MERGE_BN_MAPPINGS (torch_ge_1_13 nn)) t = None
       \<and> \<not> has_batchnorm (fst (convert_child nn self True child))
       \<and> (let r1 = weight_fake_quant nn (state child) (weight child);
               float_child = to_float nn (set_weight (returned r1) (set_state (new_state r1) child));
               new_child = from_float nn t (set_qconfig (convert (qconfig self)) float_child);
               r2 = weight_fake_quant nn (state new_child) (weight new_child)
           in fst (convert_child nn self True child)
                = set_weight (arg_after r2) (set_state (new_state r2) new_child))
       \<and> (reached (SUPPORT_QAT_MODULES (torch_ge_1_13 nn)) observed_module p
            \<and> submodule observed_module p = Some child \<longrightarrow>
            map_option mclass
              (submodule (fst (post_process_weight_fakequant nn self observed_module True)) p) = Some t
            \<and> map_option has_batchnorm
              (submodule (fst (post_process_weight_fakequant nn self observed_module True)) p) = Some False)"
proof -
  let ?sup = "SUPPORT_QAT_MODULES (torch_ge_1_13 nn)"
  have inst: "isinstance child ?sup"
    using assms(3) by (intro isinstance_own_class merge_key_supported)
  then have place: "fst (traverse_children nn self True [(n, child)])
      = [(n, fst (convert_child nn self True child))]"
    by (simp split: prod.splits)
  from merge_target [OF assms(3)]
  have none: "map_of (MERGE_BN_MAPPINGS (torch_ge_1_13 nn)) t = None"
    and free: "t \<in> {Conv1d, Conv2d, Conv3d, ConvReLU1d, ConvReLU2d, ConvReLU3d, Linear}" by simp_all
  have nobn: "\<not> has_batchnorm (from_float nn t m)" for m
    using assms(2) free by blast
  have cls: "mclass (fst (convert_child nn self' True m)) = t"
    and bn: "\<not> has_batchnorm (fst (convert_child nn self' True m))"
    if "mclass m = mclass child" for m :: "('a, 'b, 'c) module" and self' :: "('c, 'd, 'e, 'f) quantizer"
    using assms(1,3) that nobn by (simp_all add: convert_child_def Let_def)
  have eq: "(let r1 = weight_fake_quant nn (state child) (weight child);
               float_child = to_float nn (set_weight (returned r1) (set_state (new_state r1) child));
               new_child = from_float nn t (set_qconfig (convert (qconfig self)) float_child);
               r2 = weight_fake_quant nn (state new_child) (weight new_child)
           in fst (convert_child nn self True child)
                = set_weight (arg_after r2) (set_state (new_state r2) new_child))"
    using assms(3) by (simp add: convert_child_def Let_def)
  have at: "submodule (fst (post_process_weight_fakequant nn self observed_module True)) p
      = Some (fst (convert_child nn self True (module_apply (enable_fake_quant nn) child)))"
    if "reached ?sup observed_module p" "submodule observed_module p = Some child"
    using submodule_post_process [OF that, of self True] inst by simp
  have "reached ?sup observed_module p \<and> submodule observed_module p = Some child \<longrightarrow>
      map_option mclass
        (submodule (fst (post_process_weight_fakequant nn self observed_module True)) p) = Some t
      \<and> map_option has_batchnorm
        (submodule (fst (post_process_weight_fakequant nn self observed_module True)) p) = Some False"
    using at cls [of "module_apply (enable_fake_quant nn) child" self]
      bn [of "module_apply (enable_fake_quant nn) child" self]
    by (simp add: fields_module_apply)
  with place none free eq cls [of child self] bn [of child self] show ?thesis by auto
qed

theorem merged_replacement_class_witness:
  "map_of (MERGE_BN_MAPPINGS (torch_ge_1_13 example_nn_layout)) (mclass example_conv) = Some ConvReLU2d
   \<and> mclass example_conv = ConvBnReLU2d
   \<and> has_batchnorm example_conv
   \<and> has_batchnorm (from_float example_nn_layout ConvBnReLU2d example_conv)
   \<and> mclass (fst (convert_child example_nn_layout (example_quantizer []) True example_conv)) = ConvReLU2d
   \<and> \<not> has_batchnorm (fst (convert_child example_nn_layout (example_quantizer []) True example_conv))
   \<and> fst (convert_child example_nn_layout (example_quantizer []) True example_conv)
       = Module ConvReLU2d [] 20 1 (Some 8) []
   \<and> reached (SUPPORT_QAT_MODULES (torch_ge_1_13 example_nn_layout)) example_model [0]
   \<and> submodule example_model [0] = Some example_conv
   \<and> map_option mclass (submodule
        (fst (post_process_weight_fakequant example_nn_layout (example_quantizer []) example_model True))
        [0]) = Some ConvReLU2d
   \<and> map_option has_batchnorm (submodule
        (fst (post_process_weight_fakequant example_nn_layout (example_quantizer []) example_model True))
        [0]) = Some False
   \<and> map_of (MERGE_BN_MAPPINGS (torch_ge_1_13 example_nn_layout)) LinearBn1d = Some Linear
   \<and> mclass (fst (convert_child example_nn_layout (example_quantizer []) True
        (Module LinearBn1d [] 12 0 None []))) = Linear"
proof -
  have contract: "\<forall>c m. mclass (from_float example_nn_layout c m) = c"
    by (simp add: example_nn_layout_def example_nn_def)
  have layout: "\<forall>c m. c \<in> {Conv1d, Conv2d, Conv3d, ConvReLU1d, ConvReLU2d, ConvReLU3d, Linear}
      \<longrightarrow> \<not> has_batchnorm (from_float example_nn_layout c m)"
    by (auto simp: example_nn_layout_def example_nn_def)
  have conv: "map_of (MERGE_BN_MAPPINGS (torch_ge_1_13 example_nn_layout)) (mclass example_conv)
      = Some ConvReLU2d"
    by (simp add: example_nn_layout_def example_nn_defs)
  have fc: "map_of (MERGE_BN_MAPPINGS (torch_ge_1_13 example_nn_layout))
      (mclass (Module LinearBn1d [] 12 0 None [] :: (int, nat, nat) module)) = Some Linear"
    by (simp add: example_nn_layout_def example_nn_defs)
  have r: "reached (SUPPORT_QAT_MODULES (torch_ge_1_13 example_nn_layout)) example_model [0]"
    by (simp add: example_model_def)
  have s: "submodule example_model [0] = Some example_conv"
    by (simp add: example_model_def)
  have before: "has_batchnorm example_conv"
    "has_batchnorm (from_float example_nn_layout ConvBnReLU2d example_conv)"
    "mclass example_conv = ConvBnReLU2d"
    by (simp_all add: example_nn_layout_def example_nn_def example_conv_def isinstance_def
        batchnorm_classes_def)
  have whole: "fst (convert_child example_nn_layout (example_quantizer []) True example_conv)
       = Module ConvReLU2d [] 20 1 (Some 8) []"
    using merged_replacement_class [OF contract layout conv, of "example_quantizer []",
        THEN conjunct2, THEN conjunct2, THEN conjunct2, THEN conjunct2, THEN conjunct2,
        THEN conjunct2, THEN conjunct1]
    by (simp add: Let_def example_nn_layout_def example_nn_defs)
  note inst = merged_replacement_class [OF contract layout conv,
      of "example_quantizer []" "''conv''" example_model "[0]"]
  have "mclass (fst (convert_child example_nn_layout (example_quantizer []) True example_conv)) = ConvReLU2d"
    using inst by simp
  moreover have "\<not> has_batchnorm (fst (convert_child example_nn_layout (example_quantizer []) True
      example_conv))"
    using inst by simp
  moreover have "map_option mclass (submodule
        (fst (post_process_weight_fakequant example_nn_layout (example_quantizer []) example_model True))
        [0]) = Some ConvReLU2d
      \<and> map_option has_batchnorm (submodule
        (fst (post_process_weight_fakequant example_nn_layout (example_quantizer []) example_model True))
        [0]) = Some False"
    using inst r s by blast
  moreover have "mclass (fst (convert_child example_nn_layout (example_quantizer []) True
        (Module LinearBn1d [] 12 0 None []))) = Linear"
    using merged_replacement_class [OF contract layout fc, of "example_quantizer []", THEN conjunct1]
    by simp
  ultimately show ?thesis using conv fc r s before whole by simp
qed

text \<open>
  C9. With \<^verbatim>\<open>keep_fake_quant\<close> true the replacement is the module \<^verbatim>\<open>from_float\<close>
  built, with the state the second call left and with the weight as that call left
  its argument; the tensor the call returned is in neither. So when the call does not
  write into its argument, the stored weight is the one \<^verbatim>\<open>from_float\<close> produced.
  The first call is treated otherwise: the child that goes into \<^verbatim>\<open>to_float\<close>
  stores the tensor the call returned.
\<close>

theorem second_fake_quant_result_discarded:
  "(let r1 = weight_fake_quant nn (state child) (weight child);
        child1 = set_weight (returned r1) (set_state (new_state r1) child);
        float_child = to_float nn child1;
        new_child = from_float nn
          (case map_of (MERGE_BN_MAPPINGS (torch_ge_1_13 nn)) (mclass child) of
             Some c \<Rightarrow> c | None \<Rightarrow> mclass child)
          (set_qconfig (convert (qconfig self)) float_child);
        r2 = weight_fake_quant nn (state new_child) (weight new_child)
    in fst (convert_child nn self True child) = set_weight (arg_after r2) (set_state (new_state r2) new_child)
     \<and> weight (fst (convert_child nn self True child)) = arg_after r2
     \<and> (arg_after r2 = weight new_child \<longrightarrow>
          weight (fst (convert_child nn self True child)) = weight new_child)
     \<and> weight child1 = returned r1
     \<and> fst (convert_child nn self False child) = to_float nn child1)"
  by (auto simp: convert_child_def Let_def split: option.splits)

theorem second_fake_quant_result_discarded_witness:
  "weight (fst (convert_child example_nn (example_quantizer []) True example_conv)) = 20
   \<and> returned (weight_fake_quant example_nn 0 20) = 5
   \<and> arg_after (weight_fake_quant example_nn 0 20) = 20
   \<and> weight example_conv = 8
   \<and> returned (weight_fake_quant example_nn (state example_conv) (weight example_conv)) = 2
   \<and> weight (fst (convert_child example_nn (example_quantizer []) False example_conv)) = 20"
proof -
  have new_child: "from_float example_nn
      (case map_of (MERGE_BN_MAPPINGS (torch_ge_1_13 example_nn)) (mclass example_conv) of
         Some c \<Rightarrow> c | None \<Rightarrow> mclass example_conv)
      (set_qconfig (convert (qconfig (example_quantizer [])))
        (to_float example_nn
          (set_weight (returned (weight_fake_quant example_nn (state example_conv) (weight example_conv)))
            (set_state (new_state (weight_fake_quant example_nn (state example_conv) (weight example_conv)))
              example_conv))))
      = Module ConvReLU2d [] 20 0 (Some 8) []"
    by (simp add: example_nn_defs)
  have "weight (fst (convert_child example_nn (example_quantizer []) True example_conv)) = 20"
    using second_fake_quant_result_discarded [of example_nn example_conv "example_quantizer []"]
    unfolding Let_def new_child
    by (simp add: example_nn_def)
  moreover have "weight (fst (convert_child example_nn (example_quantizer []) False example_conv)) = 20"
    by (simp add: example_nn_defs)
  ultimately show ?thesis
    by (simp add: example_nn_def example_conv_def)
qed


end
